theory Spec2Isabelle
  imports Complex_Main
begin

section \<open>Numbers, errors and the bounded buffer\<close>

text \<open>
  The two programs (\<^verbatim>\<open>FacialExpression.py\<close> and \<^verbatim>\<open>_5Fingers.py\<close>) are embedded
  function by function. Python ints are \<^typ>\<open>int\<close>. An exception is a value of \<open>py_error\<close> on
  the left of a sum. The coordinates of landmarks and the geometry computed from them are
  real numbers. The arithmetic of the float smoothing step, \<^verbatim>\<open>sum(buf) / len(buf)\<close>, is IEEE
  double arithmetic, modelled below with its rounding and its infinities.
\<close>

datatype py_error = IndexError | ZeroDivisionError | ValueError | OverflowError

text \<open>
  \<^verbatim>\<open>collections.deque(maxlen=m)\<close>: the constructor converts \<open>m\<close> to a C \<^verbatim>\<open>ssize_t\<close> (64 bits)
  and raises \<^verbatim>\<open>OverflowError\<close> when it does not fit, then \<^verbatim>\<open>ValueError\<close> on a negative
  bound; \<^verbatim>\<open>append\<close> puts the value at the right end and then drops the leftmost element when
  the length exceeds the bound.
\<close>

record 'a deque =
  maxlen :: nat
  items :: "'a list"

definition deque_init :: "int \<Rightarrow> py_error + 'a deque" where
  "deque_init m =
     (if m < - (2 ^ 63) \<or> 2 ^ 63 \<le> m then Inl OverflowError
      else if m < 0 then Inl ValueError
      else Inr \<lparr>maxlen = nat m, items = []\<rparr>)"

definition deque_append :: "'a deque \<Rightarrow> 'a \<Rightarrow> 'a deque" where
  "deque_append d v =
     (let xs = items d @ [v]
      in d\<lparr>items := (if maxlen d < length xs then tl xs else xs)\<rparr>)"

section \<open>Float arithmetic\<close>

text \<open>
  Rounding a real to the nearest integer, a tie to the even one. It is Python's
  \<^verbatim>\<open>int(round(r))\<close> on a float \<open>r\<close>, and the rounding of a significand below.
\<close>

definition py_round :: "real \<Rightarrow> int" where
  "py_round r =
     (let f = \<lfloor>r\<rfloor>; d = r - of_int f
      in if d < 1 / 2 then f
         else if 1 / 2 < d then f + 1
         else if even f then f else f + 1)"

text \<open>
  A Python float is an IEEE double: a finite value, an infinity or NaN (the sign of zero is
  not kept: it changes no comparison). \<open>fl x\<close> is the double nearest to the real \<open>x\<close>, a tie
  going to the even significand: \<open>x\<close> is rounded to a multiple of \<open>2 ^ (e - 52)\<close> where
  \<open>2 ^ e \<le> |x| < 2 ^ (e + 1)\<close> and \<open>e\<close> is at least \<open>-1022\<close> (below that the doubles are
  subnormal); a result of magnitude \<open>2 ^ 1024\<close> or more overflows to an infinity.
\<close>

datatype pyfloat = Finite real | PosInf | NegInf | NaN

definition pow2 :: "int \<Rightarrow> real" where
  "pow2 e = (if 0 \<le> e then 2 ^ nat e else 1 / 2 ^ nat (- e))"

definition float_exp :: "real \<Rightarrow> int" where
  "float_exp x = max \<lfloor>log 2 \<bar>x\<bar>\<rfloor> (- 1022)"

definition fl :: "real \<Rightarrow> pyfloat" where
  "fl x =
     (if x = 0 then Finite 0
      else
        let ulp = pow2 (float_exp x - 52);
            r = of_int (py_round (x / ulp)) * ulp
        in if 2 ^ 1024 \<le> \<bar>r\<bar> then (if 0 < r then PosInf else NegInf) else Finite r)"


text \<open>Float addition: the exact sum, rounded; the infinities and NaN as IEEE has them.\<close>

fun float_add :: "pyfloat \<Rightarrow> pyfloat \<Rightarrow> pyfloat" where
  "float_add NaN b = NaN"
| "float_add a NaN = NaN"
| "float_add PosInf NegInf = NaN"
| "float_add NegInf PosInf = NaN"
| "float_add PosInf b = PosInf"
| "float_add a PosInf = PosInf"
| "float_add NegInf b = NegInf"
| "float_add a NegInf = NegInf"
| "float_add (Finite a) (Finite b) = fl (a + b)"

text \<open>
  \<^verbatim>\<open>sum(buf)\<close> over floats: from 0, the elements are added from left to right, every
  addition rounded (CPython up to 3.11; later versions carry a compensation term).
\<close>

definition float_sum :: "real list \<Rightarrow> pyfloat" where
  "float_sum xs = foldl (\<lambda>acc v. float_add acc (Finite v)) (Finite 0) xs"

text \<open>
  \<^verbatim>\<open>s / n\<close> for a float \<open>s\<close> and \<open>n = len(buf)\<close>: \<^verbatim>\<open>ZeroDivisionError\<close> on a zero divisor,
  else the rounded quotient (a length is below \<open>2 ^ 53\<close> and converts to a float exactly).
\<close>

definition float_div :: "pyfloat \<Rightarrow> nat \<Rightarrow> py_error + pyfloat" where
  "float_div s n =
     (if n = 0 then Inl ZeroDivisionError
      else Inr (case s of
                  Finite a \<Rightarrow> fl (a / real n)
                | PosInf \<Rightarrow> PosInf
                | NegInf \<Rightarrow> NegInf
                | NaN \<Rightarrow> NaN))"

text \<open>The comparisons \<^verbatim>\<open>a <= b\<close> and \<^verbatim>\<open>a < b\<close> of floats: false whenever one is NaN.\<close>

fun float_le :: "pyfloat \<Rightarrow> pyfloat \<Rightarrow> bool" where
  "float_le NaN b = False"
| "float_le a NaN = False"
| "float_le NegInf b = True"
| "float_le a PosInf = True"
| "float_le PosInf b = False"
| "float_le a NegInf = False"
| "float_le (Finite a) (Finite b) = (a \<le> b)"

fun float_lt :: "pyfloat \<Rightarrow> pyfloat \<Rightarrow> bool" where
  "float_lt NaN b = False"
| "float_lt a NaN = False"
| "float_lt PosInf b = False"
| "float_lt a NegInf = False"
| "float_lt NegInf b = True"
| "float_lt a PosInf = True"
| "float_lt (Finite a) (Finite b) = (a < b)"

section \<open>The smoothing step\<close>

text \<open>
  \<^verbatim>\<open>s / n\<close> for an int \<open>s\<close> (the sum of the buffered counts) and \<open>n = len(buffer)\<close>: true
  division, raising on a zero divisor, read as the real quotient.
\<close>

definition true_div :: "real \<Rightarrow> nat \<Rightarrow> py_error + real" where
  "true_div s n = (if n = 0 then Inl ZeroDivisionError else Inr (s / real n))"

text \<open>
  The smoothing step, written inline in the source: \<^verbatim>\<open>buf.append(v)\<close> followed by
  \<^verbatim>\<open>sum(buf) / len(buf)\<close> (\<^verbatim>\<open>FacialExpression.py\<close> lines 168-171 on floats,
  \<^verbatim>\<open>_5Fingers.py\<close> lines 212-213 on int counts). The result is the updated buffer
  and the quotient. The float buffers hold the finite floats appended, as reals.
\<close>

definition push :: "real deque \<Rightarrow> real \<Rightarrow> real deque \<times> (py_error + pyfloat)" where
  "push buf v =
     (let buf' = deque_append buf v
      in (buf', float_div (float_sum (items buf')) (length (items buf'))))"

definition push_count :: "int deque \<Rightarrow> int \<Rightarrow> int deque \<times> (py_error + real)" where
  "push_count buf v =
     (let buf' = deque_append buf v
      in (buf', true_div (of_int (sum_list (items buf'))) (length (items buf'))))"

text \<open>The buffer after a run of frames has appended \<open>vs\<close>, oldest first.\<close>

definition feed :: "'a deque \<Rightarrow> 'a list \<Rightarrow> 'a deque" where
  "feed buf vs = foldl deque_append buf vs"

text \<open>The last \<open>n\<close> elements of a list (the whole list when it is shorter).\<close>

definition lastn :: "nat \<Rightarrow> 'a list \<Rightarrow> 'a list" where
  "lastn n xs = drop (length xs - n) xs"

section \<open>Strings and the wire format\<close>

text \<open>
  A Python \<^verbatim>\<open>str\<close> is a \<^typ>\<open>string\<close> whose characters are the code points below 256.
  \<^verbatim>\<open>str.strip()\<close> removes leading and trailing whitespace (for these code points: 9-13,
  28-32, 133 and 160), \<^verbatim>\<open>str.lower()\<close> maps \<open>A-Z\<close> and the Latin-1 capitals 192-222
  (but the multiplication sign 215) to the letter 32 places further on.
\<close>

definition py_isspace :: "char \<Rightarrow> bool" where
  "py_isspace c = (of_char c \<in> {9, 10, 11, 12, 13, 28, 29, 30, 31, 32, 133, 160 :: nat})"

definition lower_char :: "char \<Rightarrow> char" where
  "lower_char c =
     (let n = (of_char c :: nat)
      in if (65 \<le> n \<and> n \<le> 90) \<or> (192 \<le> n \<and> n \<le> 222 \<and> n \<noteq> 215)
         then char_of (n + 32) else c)"

definition lower :: "string \<Rightarrow> string" where
  "lower s = map lower_char s"

definition strip :: "string \<Rightarrow> string" where
  "strip s = rev (dropWhile py_isspace (rev (dropWhile py_isspace s)))"

text \<open>\<^verbatim>\<open>f"{val}\n"\<close> for an int: the decimal digits, a minus sign first when negative.\<close>

fun str_nat :: "nat \<Rightarrow> string" where
  "str_nat n =
     (if n < 10 then [''0123456789'' ! n]
      else str_nat (n div 10) @ [''0123456789'' ! (n mod 10)])"

declare str_nat.simps [simp del]

definition str_int :: "int \<Rightarrow> string" where
  "str_int i = (if i < 0 then CHR ''-'' # str_nat (nat (- i)) else str_nat (nat i))"

definition line_of :: "int \<Rightarrow> string" where
  "line_of val = str_int val @ [CHR 0x0A]"

section \<open>SerialClient\<close>

text \<open>
  The serial device is the environment. What a call does to it is returned as a list of
  events: \<open>Write msg\<close> for a \<^verbatim>\<open>write\<close> that returned, \<open>WriteError msg\<close> for one that raised,
  \<open>Close\<close> and \<open>CloseError\<close> for \<^verbatim>\<open>close\<close>. Whether a call raises is the environment's choice,
  given to each call as an \<open>io_env\<close>. Opening the port (\<^verbatim>\<open>SerialClient.open\<close>) is not
  modelled: a client is any value of the record, \<open>ser\<close> holding the device path of the open
  \<^verbatim>\<open>serial.Serial\<close> object or \<open>None\<close>.
\<close>

datatype event = Write string | WriteError string | Close | CloseError

record io_env =
  write_raises :: bool
  close_raises :: bool

record SerialClient =
  port :: "string option"
  baud :: int
  retries :: int
  delay :: real
  ser :: "string option"
  available :: bool

definition ser_close :: "io_env \<Rightarrow> event" where
  "ser_close env = (if close_raises env then CloseError else Close)"

text \<open>The dict literal of \<^verbatim>\<open>send_signal\<close>.\<close>

definition mapping :: "string \<rightharpoonup> int" where
  "mapping = map_of [(''neutral'', 2), (''smile'', 3), (''frown'', 1)]"

text \<open>
  \<^verbatim>\<open>FacialExpression.py\<close>, \<^verbatim>\<open>SerialClient.send_signal\<close>. The label may be \<^verbatim>\<open>None\<close>
  (\<^verbatim>\<open>label or ''\<close>). The result is the returned bool, the client afterwards and the events.
\<close>

definition send_signal ::
  "io_env \<Rightarrow> SerialClient \<Rightarrow> string option \<Rightarrow> bool \<times> SerialClient \<times> event list" where
  "send_signal env self label =
     (if \<not> available self \<or> ser self = None then (False, self, [])
      else
        let key = lower (strip (case label of None \<Rightarrow> [] | Some l \<Rightarrow> l))
        in (case mapping key of
              None \<Rightarrow> (False, self, [])
            | Some val \<Rightarrow>
                (let msg = line_of val
                 in if write_raises env
                    then (False, self\<lparr>ser := None, available := False\<rparr>,
                          [WriteError msg, ser_close env])
                    else (True, self, [Write msg]))))"

text \<open>\<^verbatim>\<open>_5Fingers.py\<close>, \<^verbatim>\<open>SerialClient.send_count\<close>; \<^verbatim>\<open>int(n)\<close> of an int is the int.\<close>

definition send_count ::
  "io_env \<Rightarrow> SerialClient \<Rightarrow> int \<Rightarrow> bool \<times> SerialClient \<times> event list" where
  "send_count env self n =
     (if \<not> available self \<or> ser self = None then (False, self, [])
      else
        let msg = line_of n
        in if write_raises env
           then (False, self\<lparr>ser := None, available := False\<rparr>,
                 [WriteError msg, ser_close env])
           else (True, self, [Write msg]))"

text \<open>\<^verbatim>\<open>SerialClient.close\<close>, the same in both programs.\<close>

definition close :: "io_env \<Rightarrow> SerialClient \<Rightarrow> SerialClient \<times> event list" where
  "close env self =
     (if ser self \<noteq> None
      then (self\<lparr>ser := None, available := False\<rparr>, [ser_close env])
      else (self, []))"

text \<open>
  A run of calls of a send method on one client, each call with its environment and its
  argument: the returned bool and the events of every call, in order.
\<close>

fun calls ::
  "('e \<Rightarrow> 'c \<Rightarrow> 'v \<Rightarrow> bool \<times> 'c \<times> event list) \<Rightarrow> 'c \<Rightarrow> ('e \<times> 'v) list \<Rightarrow>
     (bool \<times> event list) list" where
  "calls send self [] = []"
| "calls send self ((env, v) # rest) =
     (case send env self v of (r, self', evs) \<Rightarrow> (r, evs) # calls send self' rest)"

section \<open>Landmarks\<close>

text \<open>
  A landmark has the fields \<^verbatim>\<open>x\<close> and \<^verbatim>\<open>y\<close>, here \<open>px\<close> and \<open>py\<close>. A landmark set is a
  list; indexing beyond its end raises \<^verbatim>\<open>IndexError\<close> (all indices of the source are
  non-negative constants).
\<close>

datatype landmark = Landmark (px: real) (py: real)

definition nth_lm :: "landmark list \<Rightarrow> nat \<Rightarrow> py_error + landmark" where
  "nth_lm lms i = (if i < length lms then Inr (lms ! i) else Inl IndexError)"

section \<open>SmileDetector\<close>

definition L_IDX :: nat where "L_IDX = 61"
definition R_IDX :: nat where "R_IDX = 291"
definition U_IDX :: nat where "U_IDX = 13"
definition B_IDX :: nat where "B_IDX = 14"

record SmileDetector =
  mouth_buf :: "real deque"
  corner_buf :: "real deque"
  smile_thresh :: real
  frown_thresh :: real
  corner_margin :: real

text \<open>\<^verbatim>\<open>SmileDetector.__init__\<close>; the defaults of its keyword arguments follow.\<close>

definition SmileDetector_init :: "int \<Rightarrow> real \<Rightarrow> real \<Rightarrow> real \<Rightarrow> py_error + SmileDetector" where
  "SmileDetector_init buf_size st ft cm =
     (case deque_init (max 1 buf_size) of
        Inl e \<Rightarrow> Inl e
      | Inr mb \<Rightarrow>
          (case deque_init (max 1 buf_size) of
             Inl e \<Rightarrow> Inl e
           | Inr cb \<Rightarrow>
               Inr \<lparr>mouth_buf = mb, corner_buf = cb, smile_thresh = st,
                    frown_thresh = ft, corner_margin = cm\<rparr>))"

definition SmileDetector_default :: "int \<Rightarrow> py_error + SmileDetector" where
  "SmileDetector_default buf_size = SmileDetector_init buf_size (32 / 100) (22 / 100) (15 / 1000)"

definition hypot :: "real \<Rightarrow> real \<Rightarrow> real" where
  "hypot a b = sqrt (a\<^sup>2 + b\<^sup>2)"

definition eps :: real where
  "eps = 1 / 1000000"

text \<open>\<^verbatim>\<open>max(xs)\<close> and \<^verbatim>\<open>min(xs)\<close> of a list: \<^verbatim>\<open>ValueError\<close> on the empty list.\<close>

definition py_max :: "real list \<Rightarrow> py_error + real" where
  "py_max xs = (case xs of [] \<Rightarrow> Inl ValueError | v # vs \<Rightarrow> Inr (foldl max v vs))"

definition py_min :: "real list \<Rightarrow> py_error + real" where
  "py_min xs = (case xs of [] \<Rightarrow> Inl ValueError | v # vs \<Rightarrow> Inr (foldl min v vs))"

text \<open>
  Lines 145-165 of \<^verbatim>\<open>SmileDetector.compute\<close>: the measurements of one face, as
  \<open>(mouth_w_norm, corner_diff_norm, mouth_w, mouth_h)\<close>. The unused \<^verbatim>\<open>ratio\<close> is left out
  (its divisor is positive).
\<close>

definition mouth_geometry :: "landmark list \<Rightarrow> int \<Rightarrow> int \<Rightarrow> py_error + (real \<times> real \<times> real \<times> real)" where
  "mouth_geometry lms img_w img_h =
     (case nth_lm lms L_IDX of Inl e \<Rightarrow> Inl e | Inr l \<Rightarrow>
     (case nth_lm lms R_IDX of Inl e \<Rightarrow> Inl e | Inr r \<Rightarrow>
     (case nth_lm lms U_IDX of Inl e \<Rightarrow> Inl e | Inr u \<Rightarrow>
     (case nth_lm lms B_IDX of Inl e \<Rightarrow> Inl e | Inr b \<Rightarrow>
      (let left_x = px l * of_int img_w; left_y = py l * of_int img_h;
           right_x = px r * of_int img_w; right_y = py r * of_int img_h;
           top_x = px u * of_int img_w; top_y = py u * of_int img_h;
           bottom_x = px b * of_int img_w; bottom_y = py b * of_int img_h;
           mouth_w = hypot (right_x - left_x) (right_y - left_y);
           mouth_h = hypot (bottom_x - top_x) (bottom_y - top_y) + eps;
           xs = map (\<lambda>p. px p * of_int img_w) lms;
           ys = map (\<lambda>p. py p * of_int img_h) lms
       in
      (case py_max xs of Inl e \<Rightarrow> Inl e | Inr max_x \<Rightarrow>
      (case py_min xs of Inl e \<Rightarrow> Inl e | Inr min_x \<Rightarrow>
      (case py_max ys of Inl e \<Rightarrow> Inl e | Inr max_y \<Rightarrow>
      (case py_min ys of Inl e \<Rightarrow> Inl e | Inr min_y \<Rightarrow>
       (let face_w = max_x - min_x + eps;
            face_h = max_y - min_y + eps;
            mouth_w_norm = mouth_w / face_w;
            corners_mean_y = (left_y + right_y) / 2;
            mouth_center_y = (top_y + bottom_y) / 2;
            corner_diff = corners_mean_y - mouth_center_y;
            corner_diff_norm = corner_diff / face_h
        in Inr (mouth_w_norm, corner_diff_norm, mouth_w, mouth_h)))))))))))"

text \<open>
  Lines 174-179: the heuristics on the two averages, which are floats; the thresholds are
  finite.
\<close>

definition classify :: "SmileDetector \<Rightarrow> pyfloat \<Rightarrow> pyfloat \<Rightarrow> string" where
  "classify self avg_w avg_corner =
     (if float_le (Finite (smile_thresh self)) avg_w
          \<and> float_lt avg_corner (Finite (- corner_margin self)) then ''smile''
      else if float_le avg_w (Finite (frown_thresh self))
          \<and> float_lt (Finite (corner_margin self)) avg_corner then ''frown''
      else ''neutral'')"

text \<open>
  \<^verbatim>\<open>SmileDetector.compute\<close>: the detector afterwards and the returned tuple
  \<open>(label, mouth_w_norm, mouth_w, mouth_h)\<close>. The two buffers are independent, so the
  appends and the two averages of lines 168-171 are written as two smoothing steps.
\<close>

definition compute ::
  "SmileDetector \<Rightarrow> landmark list \<Rightarrow> int \<Rightarrow> int \<Rightarrow>
     py_error + (SmileDetector \<times> string \<times> real \<times> real \<times> real)" where
  "compute self lms img_w img_h =
     (case mouth_geometry lms img_w img_h of
        Inl e \<Rightarrow> Inl e
      | Inr (mouth_w_norm, corner_diff_norm, mouth_w, mouth_h) \<Rightarrow>
          (let (mb, qw) = push (mouth_buf self) mouth_w_norm;
               (cb, qc) = push (corner_buf self) corner_diff_norm
           in (case qw of Inl e \<Rightarrow> Inl e | Inr avg_w \<Rightarrow>
              (case qc of Inl e \<Rightarrow> Inl e | Inr avg_corner \<Rightarrow>
                 Inr (self\<lparr>mouth_buf := mb, corner_buf := cb\<rparr>,
                      classify self avg_w avg_corner, mouth_w_norm, mouth_w, mouth_h)))))"

section \<open>HandCounter\<close>

record HandCounter =
  assume_right_hand :: bool
  flipped :: bool

text \<open>Lines 116-119 of \<^verbatim>\<open>HandCounter.count\<close>: \<^verbatim>\<open>None\<close> and the empty string are falsy.\<close>

definition hand_label_of :: "HandCounter \<Rightarrow> string option \<Rightarrow> string" where
  "hand_label_of self handedness_label =
     (case handedness_label of
        Some (c # cs) \<Rightarrow> c # cs
      | _ \<Rightarrow> (if assume_right_hand self then ''Right'' else ''Left''))"

text \<open>Lines 125-139: whether the thumb adds one to \<^verbatim>\<open>fingers\<close>.\<close>

definition thumb_extended :: "HandCounter \<Rightarrow> string \<Rightarrow> landmark \<Rightarrow> landmark \<Rightarrow> bool" where
  "thumb_extended self hand_label thumb_tip thumb_ip =
     (if hand_label = ''Right''
      then (if flipped self then px thumb_tip < px thumb_ip else px thumb_tip > px thumb_ip)
      else (if flipped self then px thumb_tip > px thumb_ip else px thumb_tip < px thumb_ip))"

text \<open>Lines 142-146: the loop over the tip ids, \<open>fingers\<close> being the running count.\<close>

fun other_fingers :: "landmark list \<Rightarrow> nat list \<Rightarrow> int \<Rightarrow> py_error + int" where
  "other_fingers lm [] fingers = Inr fingers"
| "other_fingers lm (tip_id # ids) fingers =
     (case nth_lm lm tip_id of Inl e \<Rightarrow> Inl e | Inr tip \<Rightarrow>
     (case nth_lm lm (tip_id - 2) of Inl e \<Rightarrow> Inl e | Inr pip \<Rightarrow>
        other_fingers lm ids (if py tip < py pip then fingers + 1 else fingers)))"

definition count :: "HandCounter \<Rightarrow> landmark list \<Rightarrow> string option \<Rightarrow> py_error + int" where
  "count self lm handedness_label =
     (let hand_label = hand_label_of self handedness_label
      in (case nth_lm lm 4 of Inl e \<Rightarrow> Inl e | Inr thumb_tip \<Rightarrow>
         (case nth_lm lm 3 of Inl e \<Rightarrow> Inl e | Inr thumb_ip \<Rightarrow>
         (case other_fingers lm [8, 12, 16, 20]
                 (if thumb_extended self hand_label thumb_tip thumb_ip then 0 + 1 else 0) of
            Inl e \<Rightarrow> Inl e
          | Inr fingers \<Rightarrow>
              (let fingers1 = (if fingers < 0 then 0 else fingers);
                   fingers2 = (if fingers1 > 5 then 5 else fingers1)
               in Inr fingers2)))))"

section \<open>The change gate as the loops write it\<close>

text \<open>
  The send-on-change lines of the two loops (\<^verbatim>\<open>FacialExpression.py\<close> 244-247,
  \<^verbatim>\<open>_5Fingers.py\<close> 220-223) differ in the names only:
  \<^verbatim>\<open>if serial_client and v != prev: sent = send(v); if sent: prev = v\<close>.
  \<open>send\<close> is the client's send method with this frame's environment. The result is the
  client, \<open>prev\<close>, the local \<open>sent\<close> (\<open>None\<close> when no call was made) and the events.
\<close>

definition change_gate ::
  "('c \<Rightarrow> 'v \<Rightarrow> bool \<times> 'c \<times> event list) \<Rightarrow> 'c option \<Rightarrow> 'v option \<Rightarrow> 'v \<Rightarrow>
     'c option \<times> 'v option \<times> bool option \<times> event list" where
  "change_gate send serial_client prev v =
     (case serial_client of
        None \<Rightarrow> (None, prev, None, [])
      | Some c \<Rightarrow>
          if Some v \<noteq> prev
          then (let (sent, c', evs) = send c v
                in (Some c', (if sent then Some v else prev), Some sent, evs))
          else (Some c, prev, None, []))"

text \<open>
  The gate over a run of frames, each with its send method and its value: the \<open>sent\<close> of
  every frame, in order.
\<close>

fun gate_frames ::
  "'c option \<Rightarrow> 'v option \<Rightarrow> (('c \<Rightarrow> 'v \<Rightarrow> bool \<times> 'c \<times> event list) \<times> 'v) list \<Rightarrow>
     bool option list" where
  "gate_frames serial_client prev [] = []"
| "gate_frames serial_client prev ((send, v) # fs) =
     (case change_gate send serial_client prev v of
        (serial_client', prev', sent, evs) \<Rightarrow> sent # gate_frames serial_client' prev' fs)"

section \<open>The main loop of the expression program\<close>

text \<open>
  One frame as the loop sees it: the face landmark sets of the perception service
  (\<^verbatim>\<open>None\<close> or a list), the frame's height and width, what the serial device does if
  written to or closed during the frame, and whether \<open>q\<close> is pressed after it.
  Drawing and display are left out. The frames of a run are the ones \<^verbatim>\<open>cap.read()\<close>
  delivers before it fails.
\<close>

record face_frame =
  multi_face_landmarks :: "landmark list list option"
  shape :: "int \<times> int"
  io :: io_env
  quit :: bool

record face_loop =
  serial_client :: "SerialClient option"
  detector :: SmileDetector
  prev_label :: "string option"
  trace :: "event list"

text \<open>
  Lines 228-247 of \<^verbatim>\<open>run\<close>: the body of the loop, for a frame that was read. The marker
  drawing of lines 235-238 reads the landmarks 61 and 291 of the face; \<^verbatim>\<open>compute\<close> reads them
  first as well, so a missing landmark is the \<open>IndexError\<close> of \<^verbatim>\<open>compute\<close>.
\<close>

definition loop_body :: "face_loop \<Rightarrow> face_frame \<Rightarrow> py_error + face_loop" where
  "loop_body st fr =
     (case multi_face_landmarks fr of
        Some (face_landmarks # others) \<Rightarrow>
          (case compute (detector st) face_landmarks (snd (shape fr)) (fst (shape fr)) of
             Inl e \<Rightarrow> Inl e
           | Inr (det, label, mw_norm, mw, mh) \<Rightarrow>
               (case change_gate (\<lambda>c l. send_signal (io fr) c (Some l))
                       (serial_client st) (prev_label st) label of
                  (cl, prev, sent, evs) \<Rightarrow>
                    Inr \<lparr>serial_client = cl, detector = det, prev_label = prev,
                         trace = trace st @ evs\<rparr>))
      | _ \<Rightarrow> Inr st)"

fun frames :: "face_loop \<Rightarrow> face_frame list \<Rightarrow> py_error option \<times> face_loop" where
  "frames st [] = (None, st)"
| "frames st (fr # frs) =
     (case loop_body st fr of
        Inl e \<Rightarrow> (Some e, st)
      | Inr st' \<Rightarrow> if quit fr then (None, st') else frames st' frs)"

text \<open>
  \<^verbatim>\<open>run\<close>, from the client that lines 198-204 built (\<open>None\<close> in noserial mode): the
  exception that ended it, if any, and all serial events, the \<^verbatim>\<open>finally\<close> block's
  \<^verbatim>\<open>close\<close> included.
\<close>

definition run ::
  "SerialClient option \<Rightarrow> bool \<Rightarrow> int \<Rightarrow> io_env \<Rightarrow> face_frame list \<Rightarrow>
     py_error option \<times> event list" where
  "run client cap_opened smooth final_env frs =
     (if \<not> cap_opened then (None, [])
      else
        (case SmileDetector_default smooth of
           Inl e \<Rightarrow> (Some e, [])
         | Inr det \<Rightarrow>
             (case frames \<lparr>serial_client = client, detector = det, prev_label = None,
                           trace = []\<rparr> frs of
                (err, st) \<Rightarrow>
                  (err, trace st @
                     (case serial_client st of
                        None \<Rightarrow> []
                      | Some c \<Rightarrow> snd (close final_env c))))))"

section \<open>The main loop of the finger-counting program\<close>

text \<open>
  One frame: the hand landmark sets (\<^verbatim>\<open>None\<close> or a list), the label of
  \<^verbatim>\<open>results.multi_handedness[0].classification[0]\<close> (\<open>None\<close> when reading it raises), the
  serial environment and the \<open>q\<close> key.
\<close>

record hands_frame =
  multi_hand_landmarks :: "landmark list list option"
  multi_handedness :: "string option"
  io_h :: io_env
  quit_h :: bool

record hand_loop =
  serial_client_h :: "SerialClient option"
  buffer :: "int deque"
  prev_sent :: "int option"
  trace_h :: "event list"

definition hand_counter :: HandCounter where
  "hand_counter = \<lparr>assume_right_hand = True, flipped = True\<rparr>"

text \<open>Lines 200-209 of \<^verbatim>\<open>run_camera_loop\<close>: the count detected in the frame.\<close>

definition detected_count :: "hands_frame \<Rightarrow> py_error + int" where
  "detected_count fr =
     (case multi_hand_landmarks fr of
        Some (hand_landmarks # others) \<Rightarrow> count hand_counter hand_landmarks (multi_handedness fr)
      | _ \<Rightarrow> Inr 0)"

text \<open>Lines 200-223: the body of the loop, for a frame that was read.\<close>

definition loop_body_h :: "hand_loop \<Rightarrow> hands_frame \<Rightarrow> py_error + hand_loop" where
  "loop_body_h st fr =
     (case detected_count fr of
        Inl e \<Rightarrow> Inl e
      | Inr n \<Rightarrow>
          (case push_count (buffer st) n of
             (buf, Inl e) \<Rightarrow> Inl e
           | (buf, Inr q) \<Rightarrow>
               (case change_gate (send_count (io_h fr))
                       (serial_client_h st) (prev_sent st) (py_round q) of
                  (cl, prev, sent, evs) \<Rightarrow>
                    Inr \<lparr>serial_client_h = cl, buffer = buf, prev_sent = prev,
                         trace_h = trace_h st @ evs\<rparr>)))"

fun frames_h :: "hand_loop \<Rightarrow> hands_frame list \<Rightarrow> py_error option \<times> hand_loop" where
  "frames_h st [] = (None, st)"
| "frames_h st (fr # frs) =
     (case loop_body_h st fr of
        Inl e \<Rightarrow> (Some e, st)
      | Inr st' \<Rightarrow> if quit_h fr then (None, st') else frames_h st' frs)"

text \<open>The state in which \<^verbatim>\<open>run_camera_loop\<close> enters its loop (lines 184-186).\<close>

definition hand_loop_init :: "SerialClient option \<Rightarrow> int \<Rightarrow> py_error + hand_loop" where
  "hand_loop_init client smooth_frames =
     (case deque_init (max 1 smooth_frames) of
        Inl e \<Rightarrow> Inl e
      | Inr buf \<Rightarrow>
          Inr \<lparr>serial_client_h = client, buffer = buf, prev_sent = None, trace_h = []\<rparr>)"

definition run_camera_loop ::
  "SerialClient option \<Rightarrow> bool \<Rightarrow> int \<Rightarrow> io_env \<Rightarrow> hands_frame list \<Rightarrow>
     py_error option \<times> event list" where
  "run_camera_loop client cap_opened smooth_frames final_env frs =
     (if \<not> cap_opened then (None, [])
      else
        (case hand_loop_init client smooth_frames of
           Inl e \<Rightarrow> (Some e, [])
         | Inr st0 \<Rightarrow>
             (case frames_h st0 frs of
                (err, st) \<Rightarrow>
                  (err, trace_h st @
                     (case serial_client_h st of
                        None \<Rightarrow> []
                      | Some c \<Rightarrow> snd (close final_env c))))))"

section \<open>An example face\<close>

text \<open>
  A face of 292 landmarks for the concrete instances below, to be seen in a frame of one
  pixel: the mouth corners (61, 291) are a quarter of the face width apart and level with
  the lips (13, 14); the face is one unit wide and half a unit high.
\<close>

definition example_face :: "landmark list" where
  "example_face =
     replicate 13 (Landmark 0 (1 / 2)) @ [Landmark (1 / 2) (1 / 2), Landmark (1 / 2) (1 / 2)]
     @ replicate 46 (Landmark (999999 / 1000000) (1 / 2)) @ [Landmark (1 / 4) (1 / 2)]
     @ replicate 229 (Landmark 0 (999999 / 1000000)) @ [Landmark (1 / 2) (1 / 2)]"

section \<open>The bounded buffer keeps the most recent values\<close>

lemma maxlen_deque_append: "maxlen (deque_append d v) = maxlen d"
  by (simp add: deque_append_def Let_def)

lemma maxlen_feed: "maxlen (feed d vs) = maxlen d"
  unfolding feed_def by (induction vs arbitrary: d) (simp_all add: maxlen_deque_append)

lemma items_deque_append:
  assumes "length (items d) \<le> maxlen d"
  shows "items (deque_append d v) = lastn (maxlen d) (items d @ [v])"
proof (cases "length (items d) = maxlen d")
  case True
  then show ?thesis
    by (cases "items d") (simp_all add: deque_append_def Let_def lastn_def)
next
  case False
  with assms have "length (items d) < maxlen d" by simp
  then show ?thesis
    by (simp add: deque_append_def Let_def lastn_def)
qed

lemma lastn_lastn_snoc:
  "lastn n (lastn n xs @ [v]) = lastn n (xs @ [v])"
  by (cases "n \<le> length xs") (simp_all add: lastn_def Suc_diff_le)

lemma length_lastn: "length (lastn n xs) = min n (length xs)"
  by (simp add: lastn_def)

lemma items_feed_aux:
  "items (feed \<lparr>maxlen = N, items = []\<rparr> vs) = lastn N vs"
proof (induction vs rule: rev_induct)
  case Nil
  show ?case by (simp add: feed_def lastn_def)
next
  case (snoc v vs)
  let ?d = "feed \<lparr>maxlen = N, items = []\<rparr> vs"
  have m: "maxlen ?d = N" by (simp add: maxlen_feed)
  have len: "length (items ?d) \<le> maxlen ?d"
    by (simp add: snoc.IH m length_lastn)
  have "items (feed \<lparr>maxlen = N, items = []\<rparr> (vs @ [v])) = items (deque_append ?d v)"
    by (simp add: feed_def)
  also have "\<dots> = lastn N (lastn N vs @ [v])"
    using items_deque_append [OF len, of v] by (simp add: m snoc.IH)
  also have "\<dots> = lastn N (vs @ [v])"
    by (rule lastn_lastn_snoc)
  finally show ?case .
qed

lemma feed_fresh:
  "feed \<lparr>maxlen = N, items = []\<rparr> vs = \<lparr>maxlen = N, items = lastn N vs\<rparr>"
proof -
  have "maxlen (feed \<lparr>maxlen = N, items = []\<rparr> vs) = N" by (simp add: maxlen_feed)
  moreover note items_feed_aux [of N vs]
  ultimately show ?thesis by (cases "feed \<lparr>maxlen = N, items = ([]::'a list)\<rparr> vs") simp
qed

lemma feed_snoc: "deque_append (feed d vs) v = feed d (vs @ [v])"
  by (simp add: feed_def)


lemma push_feed_fresh:
  assumes "1 \<le> N"
  shows "push (feed \<lparr>maxlen = N, items = []\<rparr> vs) v =
           (\<lparr>maxlen = N, items = lastn N (vs @ [v])\<rparr>,
            float_div (float_sum (lastn N (vs @ [v]))) (min N (Suc (length vs))))"
proof -
  have "deque_append (feed \<lparr>maxlen = N, items = []\<rparr> vs) v = \<lparr>maxlen = N, items = lastn N (vs @ [v])\<rparr>"
    unfolding feed_snoc by (rule feed_fresh)
  moreover have "length (lastn N (vs @ [v])) = min N (Suc (length vs))"
    by (simp add: length_lastn)
  ultimately show ?thesis
    by (simp add: push_def Let_def)
qed

lemma push_count_feed_fresh:
  assumes "1 \<le> N"
  shows "push_count (feed \<lparr>maxlen = N, items = []\<rparr> ns) n =
           (\<lparr>maxlen = N, items = lastn N (ns @ [n])\<rparr>,
            Inr (of_int (sum_list (lastn N (ns @ [n]))) / real (min N (Suc (length ns)))))"
proof -
  have "deque_append (feed \<lparr>maxlen = N, items = []\<rparr> ns) n = \<lparr>maxlen = N, items = lastn N (ns @ [n])\<rparr>"
    unfolding feed_snoc by (rule feed_fresh)
  moreover have "length (lastn N (ns @ [n])) = min N (Suc (length ns))"
    by (simp add: length_lastn)
  moreover have "min N (Suc (length ns)) \<noteq> 0"
    using assms by simp
  moreover have "lastn N (ns @ [n]) \<noteq> []"
    using assms length_lastn [of N "ns @ [n]"] by (cases "lastn N (ns @ [n])") simp_all
  ultimately show ?thesis
    by (simp add: push_count_def true_div_def Let_def)
qed

section \<open>Rounding to a double\<close>

lemma pow2_powr: "2 powr real_of_int k = pow2 k"
  by (simp add: pow2_def powr_int)

lemma float_exp_eq:
  assumes "pow2 k \<le> \<bar>x\<bar>" and "\<bar>x\<bar> < pow2 (k + 1)"
  shows "float_exp x = max k (- 1022)"
proof -
  have "0 < pow2 k" by (simp add: pow2_def)
  with assms(1) have pos: "0 < \<bar>x\<bar>" by linarith
  have a: "2 powr real_of_int k \<le> \<bar>x\<bar>"
    using assms(1) by (simp only: pow2_powr)
  have b: "\<bar>x\<bar> < 2 powr real_of_int (k + 1)"
    using assms(2) by (simp only: pow2_powr)
  have "\<lfloor>log 2 \<bar>x\<bar>\<rfloor> = k"
  proof -
    have "(1::real) < 2" by simp
    from floor_log_eq_powr_iff [OF pos this, of k] a b show ?thesis by blast
  qed
  then show ?thesis by (simp add: float_exp_def)
qed

text \<open>How \<open>fl\<close> is evaluated once the binade \<open>k\<close> of its argument is known.\<close>

lemma fl_eval:
  assumes "pow2 k \<le> \<bar>x\<bar>" and "\<bar>x\<bar> < pow2 (k + 1)"
  shows "fl x =
     (let ulp = pow2 (max k (- 1022) - 52);
          r = of_int (py_round (x / ulp)) * ulp
      in if 2 ^ 1024 \<le> \<bar>r\<bar> then (if 0 < r then PosInf else NegInf) else Finite r)"
proof -
  have "0 < pow2 k" by (simp add: pow2_def)
  with assms(1) have "x \<noteq> 0" by auto
  then show ?thesis
    by (simp add: fl_def float_exp_eq [OF assms])
qed

lemma fl_0: "fl 0 = Finite 0"
  by (simp add: fl_def)





lemma fl_quarter: "fl (1 / 4) = Finite (1 / 4)"
  using fl_eval [of "- 2" "1 / 4"] by (simp add: pow2_def py_round_def Let_def)





lemma float_div_Inr:
  assumes "n \<noteq> 0"
  shows "\<exists>q. float_div s n = Inr q"
  using assms by (simp add: float_div_def)

section \<open>The smoothing step returns the float mean of the window\<close>







section \<open>The buffers are built with a capacity of at least one\<close>

lemma deque_init_max:
  assumes "n < 2 ^ 63"
  shows "deque_init (max 1 n) = Inr \<lparr>maxlen = nat (max 1 n), items = []\<rparr>"
  using assms by (simp add: deque_init_def)

lemma deque_init_overflow:
  assumes "2 ^ 63 \<le> n"
  shows "deque_init (max 1 n) = Inl OverflowError"
  using assms by (simp add: deque_init_def)

lemma one_le_nat_max: "1 \<le> nat (max 1 n)"
  by simp

text \<open>
  C10, as the claim states it, fails: a configured window size of \<open>2 ^ 63\<close> does not fit the
  bound of a deque, so the detector and the buffer of the finger-counting loop are not built;
  both programs end with \<open>OverflowError\<close>.
\<close>

theorem buffer_size_overflow_counterexample:
  "SmileDetector_default 9223372036854775808 = Inl OverflowError
   \<and> hand_loop_init None 9223372036854775808 = Inl OverflowError
   \<and> run None True 9223372036854775808 \<lparr>write_raises = False, close_raises = False\<rparr> []
      = (Some OverflowError, [])
   \<and> run_camera_loop None True 9223372036854775808 \<lparr>write_raises = False, close_raises = False\<rparr> []
      = (Some OverflowError, [])"
  by (simp add: SmileDetector_default_def SmileDetector_init_def hand_loop_init_def deque_init_def
      run_def run_camera_loop_def)

text \<open>
  C10, amended. For every configured window size below \<open>2 ^ 63\<close>, zero and negative sizes
  included, both buffers of the detector and the buffer of the finger-counting loop are built
  without error, empty, with capacity \<open>max 1 size\<close>. From then on every push leaves the buffer
  non-empty and returns a quotient, never \<open>ZeroDivisionError\<close>. For a size from \<open>2 ^ 63\<close> on, the
  construction raises \<open>OverflowError\<close>.
\<close>

theorem buffer_capacity_at_least_one:
  "(buf_size < 2 ^ 63 \<longrightarrow>
     (\<exists>det st0.
        SmileDetector_init buf_size st ft cm = Inr det
        \<and> mouth_buf det = \<lparr>maxlen = nat (max 1 buf_size), items = []\<rparr>
        \<and> corner_buf det = \<lparr>maxlen = nat (max 1 buf_size), items = []\<rparr>
        \<and> hand_loop_init client buf_size = Inr st0
        \<and> buffer st0 = \<lparr>maxlen = nat (max 1 buf_size), items = []\<rparr>
        \<and> 1 \<le> nat (max 1 buf_size)
        \<and> (\<forall>vs v. items (fst (push (feed (mouth_buf det) vs) v)) \<noteq> []
                  \<and> (\<exists>q. snd (push (feed (mouth_buf det) vs) v) = Inr q))
        \<and> (\<forall>vs v. items (fst (push (feed (corner_buf det) vs) v)) \<noteq> []
                  \<and> (\<exists>q. snd (push (feed (corner_buf det) vs) v) = Inr q))
        \<and> (\<forall>ns n. items (fst (push_count (feed (buffer st0) ns) n)) \<noteq> []
                  \<and> (\<exists>q. snd (push_count (feed (buffer st0) ns) n) = Inr q))))
   \<and> (2 ^ 63 \<le> buf_size \<longrightarrow>
        SmileDetector_init buf_size st ft cm = Inl OverflowError
        \<and> hand_loop_init client buf_size = Inl OverflowError)"
proof -
  let ?N = "nat (max 1 buf_size)"
  have N: "1 \<le> ?N" by (rule one_le_nat_max)
  have ne: "lastn ?N (xs @ [x]) \<noteq> []" for xs :: "'a list" and x
  proof -
    have "length (lastn ?N (xs @ [x])) = min ?N (Suc (length xs))" by (simp add: length_lastn)
    with N have "length (lastn ?N (xs @ [x])) \<noteq> 0" by simp
    then show ?thesis by simp
  qed
  have m: "min ?N (Suc k) \<noteq> 0" for k
    using N by simp
  have small: "\<exists>det st0.
        SmileDetector_init buf_size st ft cm = Inr det
        \<and> mouth_buf det = \<lparr>maxlen = ?N, items = []\<rparr>
        \<and> corner_buf det = \<lparr>maxlen = ?N, items = []\<rparr>
        \<and> hand_loop_init client buf_size = Inr st0
        \<and> buffer st0 = \<lparr>maxlen = ?N, items = []\<rparr>
        \<and> 1 \<le> ?N
        \<and> (\<forall>vs v. items (fst (push (feed (mouth_buf det) vs) v)) \<noteq> []
                  \<and> (\<exists>q. snd (push (feed (mouth_buf det) vs) v) = Inr q))
        \<and> (\<forall>vs v. items (fst (push (feed (corner_buf det) vs) v)) \<noteq> []
                  \<and> (\<exists>q. snd (push (feed (corner_buf det) vs) v) = Inr q))
        \<and> (\<forall>ns n. items (fst (push_count (feed (buffer st0) ns) n)) \<noteq> []
                  \<and> (\<exists>q. snd (push_count (feed (buffer st0) ns) n) = Inr q))"
    if h: "buf_size < 2 ^ 63"
  proof -
    have i: "SmileDetector_init buf_size st ft cm =
             Inr \<lparr>mouth_buf = \<lparr>maxlen = ?N, items = []\<rparr>, corner_buf = \<lparr>maxlen = ?N, items = []\<rparr>,
                  smile_thresh = st, frown_thresh = ft, corner_margin = cm\<rparr>"
      by (simp add: SmileDetector_init_def deque_init_max [OF h])
    have g: "hand_loop_init client buf_size =
             Inr \<lparr>serial_client_h = client, buffer = \<lparr>maxlen = ?N, items = []\<rparr>,
                  prev_sent = None, trace_h = []\<rparr>"
      by (simp add: hand_loop_init_def deque_init_max [OF h])
    show ?thesis
      by (simp add: i g push_feed_fresh [OF N] push_count_feed_fresh [OF N] ne
          float_div_Inr [OF m])
  qed
  have big: "SmileDetector_init buf_size st ft cm = Inl OverflowError
        \<and> hand_loop_init client buf_size = Inl OverflowError"
    if h: "2 ^ 63 \<le> buf_size"
    by (simp add: SmileDetector_init_def hand_loop_init_def deque_init_overflow [OF h])
  from small big show ?thesis by blast
qed

theorem buffer_capacity_at_least_one_witness:
  "(0 :: int) < 2 ^ 63
   \<and> SmileDetector_init 0 (32 / 100) (22 / 100) (15 / 1000)
      = Inr \<lparr>mouth_buf = \<lparr>maxlen = 1, items = []\<rparr>, corner_buf = \<lparr>maxlen = 1, items = []\<rparr>,
             smile_thresh = 32 / 100, frown_thresh = 22 / 100, corner_margin = 15 / 1000\<rparr>
   \<and> hand_loop_init None (- 3)
      = Inr \<lparr>serial_client_h = None, buffer = \<lparr>maxlen = 1, items = []\<rparr>,
             prev_sent = None, trace_h = []\<rparr>
   \<and> (2 :: int) ^ 63 \<le> 9223372036854775808
   \<and> SmileDetector_init 9223372036854775808 (32 / 100) (22 / 100) (15 / 1000) = Inl OverflowError
   \<and> hand_loop_init None 9223372036854775808 = Inl OverflowError"
  using buffer_capacity_at_least_one [of 0 "32 / 100" "22 / 100" "15 / 1000" None]
    buffer_capacity_at_least_one [of "- 3" "32 / 100" "22 / 100" "15 / 1000" None]
    buffer_capacity_at_least_one [of 9223372036854775808 "32 / 100" "22 / 100" "15 / 1000" None]
  by (simp add: SmileDetector_init_def hand_loop_init_def deque_init_def)

section \<open>The expression classifier\<close>

lemma py_max_Max:
  assumes "xs \<noteq> []"
  shows "py_max xs = Inr (Max (set xs))"
proof (cases xs)
  case Nil
  with assms show ?thesis by simp
next
  case (Cons a list)
  have "(\<lambda>x s. max s x) = (max :: real \<Rightarrow> real \<Rightarrow> real)"
    by (intro ext) (simp add: max.commute)
  then show ?thesis
    using Max.set_eq_fold [of a list] by (simp add: Cons py_max_def foldl_conv_fold)
qed

lemma py_min_Min:
  assumes "xs \<noteq> []"
  shows "py_min xs = Inr (Min (set xs))"
proof (cases xs)
  case Nil
  with assms show ?thesis by simp
next
  case (Cons a list)
  have "(\<lambda>x s. min s x) = (min :: real \<Rightarrow> real \<Rightarrow> real)"
    by (intro ext) (simp add: min.commute)
  then show ?thesis
    using Min.set_eq_fold [of a list] by (simp add: Cons py_min_def foldl_conv_fold)
qed

lemma hypot_0: "hypot a 0 = \<bar>a\<bar>"
  by (simp add: hypot_def)

lemma mouth_geometry_example:
  "mouth_geometry example_face 1 1 = Inr (1 / 4, 0, 1 / 4, 1 / 1000000)"
  by (simp add: mouth_geometry_def example_face_def nth_lm_def L_IDX_def R_IDX_def U_IDX_def
      B_IDX_def nth_append py_max_Max py_min_Min hypot_0 Let_def eps_def)

lemma push_empty_quarter:
  "push \<lparr>maxlen = 6, items = []\<rparr> (1 / 4) = (\<lparr>maxlen = 6, items = [1 / 4]\<rparr>, Inr (Finite (1 / 4)))"
  by (simp add: push_def deque_append_def float_sum_def float_div_def fl_quarter Let_def)

lemma push_empty_0:
  "push \<lparr>maxlen = 6, items = []\<rparr> 0 = (\<lparr>maxlen = 6, items = [0]\<rparr>, Inr (Finite 0))"
  by (simp add: push_def deque_append_def float_sum_def float_div_def fl_0 Let_def)

lemma compute_label:
  assumes "compute self lms w h = Inr (self', label, mwn, mw, mh)"
  shows "\<exists>cdn qw qc. mouth_geometry lms w h = Inr (mwn, cdn, mw, mh)
           \<and> push (mouth_buf self) mwn = (mouth_buf self', Inr qw)
           \<and> push (corner_buf self) cdn = (corner_buf self', Inr qc)
           \<and> label = classify self qw qc"
  using assms
  by (auto simp: compute_def Let_def split: sum.splits prod.splits)

lemma compute_example:
  "compute \<lparr>mouth_buf = \<lparr>maxlen = 6, items = []\<rparr>, corner_buf = \<lparr>maxlen = 6, items = []\<rparr>,
        smile_thresh = st, frown_thresh = ft, corner_margin = cm\<rparr>
     example_face 1 1
   = Inr (\<lparr>mouth_buf = \<lparr>maxlen = 6, items = [1 / 4]\<rparr>, corner_buf = \<lparr>maxlen = 6, items = [0]\<rparr>,
        smile_thresh = st, frown_thresh = ft, corner_margin = cm\<rparr>,
          classify \<lparr>mouth_buf = \<lparr>maxlen = 6, items = []\<rparr>, corner_buf = \<lparr>maxlen = 6, items = []\<rparr>,
        smile_thresh = st, frown_thresh = ft, corner_margin = cm\<rparr> (Finite (1 / 4)) (Finite 0),
          1 / 4, 1 / 4, 1 / 1000000)"
  unfolding compute_def mouth_geometry_example
  by (simp add: push_empty_quarter push_empty_0)

lemma SmileDetector_default_6:
  "SmileDetector_default 6 =
     Inr \<lparr>mouth_buf = \<lparr>maxlen = 6, items = []\<rparr>, corner_buf = \<lparr>maxlen = 6, items = []\<rparr>,
          smile_thresh = 32 / 100, frown_thresh = 22 / 100, corner_margin = 15 / 1000\<rparr>"
  by (simp add: SmileDetector_default_def SmileDetector_init_def deque_init_def)

lemma SmileDetector_default_thresholds:
  assumes "SmileDetector_default n = Inr det"
  shows "smile_thresh det = 32 / 100 \<and> frown_thresh det = 22 / 100 \<and> corner_margin det = 15 / 1000"
  using assms
  by (auto simp: SmileDetector_default_def SmileDetector_init_def split: sum.splits)

lemma margin_exclusive:
  assumes "0 \<le> m"
  shows "\<not> (float_lt qc (Finite (- m)) \<and> float_lt (Finite m) qc)"
  using assms by (cases qc) auto

text \<open>
  C2. For a detector whose \<open>corner_margin\<close> is not negative, as the margin of the detector
  that \<^verbatim>\<open>run\<close> builds, and for all smoothed values \<open>qw\<close> (width) and \<open>qc\<close> (offset), compared
  as floats: the label is \<open>smile\<close> iff \<open>qw \<ge> smile_thresh\<close> and \<open>qc < - corner_margin\<close>; it is
  \<open>frown\<close> iff \<open>qw \<le> frown_thresh\<close> and \<open>qc > corner_margin\<close>; it is \<open>neutral\<close> otherwise. For
  finite values these are the comparisons of real numbers. The label that \<^verbatim>\<open>compute\<close>
  returns is this classification of the two quotients its smoothing steps return. With the
  defaults, width \<open>0.35\<close> and offset \<open>+0.02\<close> give \<open>neutral\<close>.
\<close>

theorem classify_smile_frown_neutral:
  assumes "0 \<le> corner_margin self"
  shows "(classify self qw qc = ''smile'' \<longleftrightarrow>
            float_le (Finite (smile_thresh self)) qw \<and> float_lt qc (Finite (- corner_margin self)))
         \<and> (classify self qw qc = ''frown'' \<longleftrightarrow>
            float_le qw (Finite (frown_thresh self)) \<and> float_lt (Finite (corner_margin self)) qc)
         \<and> (classify self qw qc = ''neutral'' \<longleftrightarrow>
            \<not> (float_le (Finite (smile_thresh self)) qw \<and> float_lt qc (Finite (- corner_margin self)))
            \<and> \<not> (float_le qw (Finite (frown_thresh self)) \<and> float_lt (Finite (corner_margin self)) qc))
         \<and> (classify self (Finite w) (Finite c) = ''smile'' \<longleftrightarrow>
            smile_thresh self \<le> w \<and> c < - corner_margin self)
         \<and> (classify self (Finite w) (Finite c) = ''frown'' \<longleftrightarrow>
            w \<le> frown_thresh self \<and> corner_margin self < c)
         \<and> (compute self lms iw ih = Inr (self', label, mwn, mw, mh) \<longrightarrow>
            (\<exists>cdn aw ac. mouth_geometry lms iw ih = Inr (mwn, cdn, mw, mh)
               \<and> push (mouth_buf self) mwn = (mouth_buf self', Inr aw)
               \<and> push (corner_buf self) cdn = (corner_buf self', Inr ac)
               \<and> label = classify self aw ac))
         \<and> (SmileDetector_default n = Inr det \<longrightarrow>
            0 \<le> corner_margin det
            \<and> classify det (Finite (35 / 100)) (Finite (2 / 100)) = ''neutral'')"
proof -
  note x = margin_exclusive [OF assms]
  have 1: "classify self a b = ''smile'' \<longleftrightarrow>
            float_le (Finite (smile_thresh self)) a \<and> float_lt b (Finite (- corner_margin self))"
    for a b
    by (simp add: classify_def)
  have 2: "classify self a b = ''frown'' \<longleftrightarrow>
            float_le a (Finite (frown_thresh self)) \<and> float_lt (Finite (corner_margin self)) b"
    for a b
    using x [of b] by (auto simp: classify_def)
  have 3: "classify self qw qc = ''neutral'' \<longleftrightarrow>
            \<not> (float_le (Finite (smile_thresh self)) qw \<and> float_lt qc (Finite (- corner_margin self)))
            \<and> \<not> (float_le qw (Finite (frown_thresh self)) \<and> float_lt (Finite (corner_margin self)) qc)"
    by (simp add: classify_def)
  have 4: "classify self (Finite w) (Finite c) = ''smile'' \<longleftrightarrow>
            smile_thresh self \<le> w \<and> c < - corner_margin self"
    using 1 [of "Finite w" "Finite c"] by simp
  have 5: "classify self (Finite w) (Finite c) = ''frown'' \<longleftrightarrow>
            w \<le> frown_thresh self \<and> corner_margin self < c"
    using 2 [of "Finite w" "Finite c"] by simp
  have 6: "\<exists>cdn aw ac. mouth_geometry lms iw ih = Inr (mwn, cdn, mw, mh)
               \<and> push (mouth_buf self) mwn = (mouth_buf self', Inr aw)
               \<and> push (corner_buf self) cdn = (corner_buf self', Inr ac)
               \<and> label = classify self aw ac"
    if "compute self lms iw ih = Inr (self', label, mwn, mw, mh)"
    using that by (rule compute_label)
  have 7: "0 \<le> corner_margin det
            \<and> classify det (Finite (35 / 100)) (Finite (2 / 100)) = ''neutral''"
    if "SmileDetector_default n = Inr det"
    using SmileDetector_default_thresholds [OF that] by (simp add: classify_def)
  from 1 [of qw qc] 2 [of qw qc] 3 4 5 6 7 show ?thesis by blast
qed

theorem classify_smile_frown_neutral_witness:
  "0 \<le> corner_margin \<lparr>mouth_buf = \<lparr>maxlen = 6, items = []\<rparr>, corner_buf = \<lparr>maxlen = 6, items = []\<rparr>,
        smile_thresh = 32 / 100, frown_thresh = 22 / 100, corner_margin = 15 / 1000\<rparr>
   \<and> SmileDetector_default 6 = Inr \<lparr>mouth_buf = \<lparr>maxlen = 6, items = []\<rparr>, corner_buf = \<lparr>maxlen = 6, items = []\<rparr>,
        smile_thresh = 32 / 100, frown_thresh = 22 / 100, corner_margin = 15 / 1000\<rparr>
   \<and> compute \<lparr>mouth_buf = \<lparr>maxlen = 6, items = []\<rparr>, corner_buf = \<lparr>maxlen = 6, items = []\<rparr>,
        smile_thresh = 32 / 100, frown_thresh = 22 / 100, corner_margin = 15 / 1000\<rparr> example_face 1 1
      = Inr (\<lparr>mouth_buf = \<lparr>maxlen = 6, items = [1 / 4]\<rparr>, corner_buf = \<lparr>maxlen = 6, items = [0]\<rparr>,
        smile_thresh = 32 / 100, frown_thresh = 22 / 100, corner_margin = 15 / 1000\<rparr>, ''neutral'', 1 / 4, 1 / 4, 1 / 1000000)
   \<and> classify \<lparr>mouth_buf = \<lparr>maxlen = 6, items = []\<rparr>, corner_buf = \<lparr>maxlen = 6, items = []\<rparr>,
        smile_thresh = 32 / 100, frown_thresh = 22 / 100, corner_margin = 15 / 1000\<rparr> (Finite (35 / 100)) (Finite (- (2 / 100))) = ''smile''
   \<and> classify \<lparr>mouth_buf = \<lparr>maxlen = 6, items = []\<rparr>, corner_buf = \<lparr>maxlen = 6, items = []\<rparr>,
        smile_thresh = 32 / 100, frown_thresh = 22 / 100, corner_margin = 15 / 1000\<rparr> (Finite (21 / 100)) (Finite (2 / 100)) = ''frown''
   \<and> classify \<lparr>mouth_buf = \<lparr>maxlen = 6, items = []\<rparr>, corner_buf = \<lparr>maxlen = 6, items = []\<rparr>,
        smile_thresh = 32 / 100, frown_thresh = 22 / 100, corner_margin = 15 / 1000\<rparr> (Finite (35 / 100)) (Finite (2 / 100)) = ''neutral''
   \<and> (\<exists>cdn aw ac.
         mouth_geometry example_face 1 1 = Inr (1 / 4, cdn, 1 / 4, 1 / 1000000)
         \<and> push \<lparr>maxlen = 6, items = []\<rparr> (1 / 4) = (\<lparr>maxlen = 6, items = [1 / 4]\<rparr>, Inr aw)
         \<and> push \<lparr>maxlen = 6, items = []\<rparr> cdn = (\<lparr>maxlen = 6, items = [0]\<rparr>, Inr ac)
         \<and> ''neutral'' = classify \<lparr>mouth_buf = \<lparr>maxlen = 6, items = []\<rparr>, corner_buf = \<lparr>maxlen = 6, items = []\<rparr>,
        smile_thresh = 32 / 100, frown_thresh = 22 / 100, corner_margin = 15 / 1000\<rparr> aw ac)"
proof -
  let ?D = "\<lparr>mouth_buf = \<lparr>maxlen = 6, items = []\<rparr>, corner_buf = \<lparr>maxlen = 6, items = []\<rparr>,
        smile_thresh = 32 / 100, frown_thresh = 22 / 100, corner_margin = 15 / 1000\<rparr>"
  let ?D' = "\<lparr>mouth_buf = \<lparr>maxlen = 6, items = [1 / 4]\<rparr>, corner_buf = \<lparr>maxlen = 6, items = [0]\<rparr>,
        smile_thresh = 32 / 100, frown_thresh = 22 / 100, corner_margin = 15 / 1000\<rparr>"
  have m: "0 \<le> corner_margin ?D" by simp
  have d: "SmileDetector_default 6 = Inr ?D" by (rule SmileDetector_default_6)
  have c: "compute ?D example_face 1 1 = Inr (?D', ''neutral'', 1 / 4, 1 / 4, 1 / 1000000)"
    by (subst compute_example) (simp add: classify_def)
  note t = classify_smile_frown_neutral [OF m, where lms = example_face and iw = 1 and ih = 1
      and self' = ?D' and label = "''neutral''" and mwn = "1 / 4" and mw = "1 / 4"
      and mh = "1 / 1000000" and n = 6 and det = ?D]
  from t [where w = "35 / 100" and c = "- (2 / 100)"]
  have s: "classify ?D (Finite (35 / 100)) (Finite (- (2 / 100))) = ''smile''" by simp
  from t [where w = "21 / 100" and c = "2 / 100"]
  have f: "classify ?D (Finite (21 / 100)) (Finite (2 / 100)) = ''frown''" by simp
  from t d have n: "classify ?D (Finite (35 / 100)) (Finite (2 / 100)) = ''neutral''" by blast
  from t c have e: "\<exists>cdn aw ac.
         mouth_geometry example_face 1 1 = Inr (1 / 4, cdn, 1 / 4, 1 / 1000000)
         \<and> push (mouth_buf ?D) (1 / 4) = (mouth_buf ?D', Inr aw)
         \<and> push (corner_buf ?D) cdn = (corner_buf ?D', Inr ac)
         \<and> ''neutral'' = classify ?D aw ac"
    by blast
  then have e': "\<exists>cdn aw ac.
         mouth_geometry example_face 1 1 = Inr (1 / 4, cdn, 1 / 4, 1 / 1000000)
         \<and> push \<lparr>maxlen = 6, items = []\<rparr> (1 / 4) = (\<lparr>maxlen = 6, items = [1 / 4]\<rparr>, Inr aw)
         \<and> push \<lparr>maxlen = 6, items = []\<rparr> cdn = (\<lparr>maxlen = 6, items = [0]\<rparr>, Inr ac)
         \<and> ''neutral'' = classify ?D aw ac"
    by simp
  from m d c s f n e' show ?thesis by blast
qed

section \<open>Counting fingers\<close>

lemma other_fingers_eq:
  assumes "20 < length lm"
  shows "other_fingers lm [8, 12, 16, 20] f =
           Inr (f + of_bool (py (lm ! 8) < py (lm ! 6)) + of_bool (py (lm ! 12) < py (lm ! 10))
                  + of_bool (py (lm ! 16) < py (lm ! 14)) + of_bool (py (lm ! 20) < py (lm ! 18)))"
  using assms by (simp add: nth_lm_def)

lemma other_fingers_short:
  assumes "length lm \<le> 20"
  shows "other_fingers lm [8, 12, 16, 20] f = Inl IndexError"
  using assms by (simp add: nth_lm_def split: sum.splits)

lemma count_eq:
  "count self lm h =
     (if length lm < 21 then Inl IndexError
      else Inr (of_bool (thumb_extended self (hand_label_of self h) (lm ! 4) (lm ! 3))
                + of_bool (py (lm ! 8) < py (lm ! 6)) + of_bool (py (lm ! 12) < py (lm ! 10))
                + of_bool (py (lm ! 16) < py (lm ! 14)) + of_bool (py (lm ! 20) < py (lm ! 18))))"
proof (cases "length lm < 21")
  case True
  then have "length lm \<le> 20" by simp
  then show ?thesis
    using True by (simp add: count_def other_fingers_short nth_lm_def Let_def split: sum.splits)
next
  case False
  then have l: "20 < length lm" by simp
  show ?thesis
    using False l by (simp add: count_def other_fingers_eq [OF l] nth_lm_def Let_def)
qed

lemma count_range: "count self lm h = Inr n \<Longrightarrow> 0 \<le> n \<and> n \<le> 5"
  by (auto simp: count_eq split: if_splits)

text \<open>
  C4. The thumb test follows the table of hand and mirroring: a right hand in a mirrored image
  is extended iff \<open>tip.x < joint.x\<close>, a right hand in an unmirrored one iff \<open>tip.x > joint.x\<close>,
  a left hand mirrored iff \<open>tip.x > joint.x\<close> and unmirrored iff \<open>tip.x < joint.x\<close>. The
  reported labels \<open>Right\<close> and \<open>Left\<close> are used as they are; an unreported label (\<open>None\<close> or the
  empty string) is replaced by the configured hand, \<open>Right\<close> for the counter the program builds,
  and nothing fails. On a hand of 21 landmarks the thumb test of landmarks 4 and 3 adds one to
  the count exactly when it holds. With the program's counter and no label, a thumb tip at
  \<open>x = 0.40\<close> against a joint at \<open>0.45\<close> is extended, one at \<open>0.50\<close> is not.
\<close>

theorem thumb_handedness_table:
  "thumb_extended \<lparr>assume_right_hand = a, flipped = True\<rparr> ''Right'' tip joint = (px tip < px joint)
   \<and> thumb_extended \<lparr>assume_right_hand = a, flipped = False\<rparr> ''Right'' tip joint = (px tip > px joint)
   \<and> thumb_extended \<lparr>assume_right_hand = a, flipped = True\<rparr> ''Left'' tip joint = (px tip > px joint)
   \<and> thumb_extended \<lparr>assume_right_hand = a, flipped = False\<rparr> ''Left'' tip joint = (px tip < px joint)
   \<and> hand_label_of self (Some ''Right'') = ''Right''
   \<and> hand_label_of self (Some ''Left'') = ''Left''
   \<and> hand_label_of self None = (if assume_right_hand self then ''Right'' else ''Left'')
   \<and> hand_label_of self (Some []) = (if assume_right_hand self then ''Right'' else ''Left'')
   \<and> hand_label_of hand_counter None = ''Right''
   \<and> count self lm h =
       (if length lm < 21 then Inl IndexError
        else Inr (of_bool (thumb_extended self (hand_label_of self h) (lm ! 4) (lm ! 3))
                  + of_bool (py (lm ! 8) < py (lm ! 6)) + of_bool (py (lm ! 12) < py (lm ! 10))
                  + of_bool (py (lm ! 16) < py (lm ! 14)) + of_bool (py (lm ! 20) < py (lm ! 18))))
   \<and> thumb_extended hand_counter (hand_label_of hand_counter None)
        (Landmark (40 / 100) y1) (Landmark (45 / 100) y2)
   \<and> \<not> thumb_extended hand_counter (hand_label_of hand_counter None)
        (Landmark (50 / 100) y1) (Landmark (45 / 100) y2)"
proof -
  have "hand_label_of hand_counter None = ''Right''"
    by (simp add: hand_label_of_def hand_counter_def)
  then show ?thesis
    by (simp add: thumb_extended_def hand_label_of_def hand_counter_def count_eq)
qed

text \<open>
  C5. On a hand of 21 landmarks \<^verbatim>\<open>count\<close> returns the sum of five binary decisions: the
  thumb test, and for each tip 8, 12, 16 and 20 whether its \<open>y\<close> is strictly below the \<open>y\<close> of
  the landmark two places before it (6, 10, 14, 18), each taken on its own. The sum lies
  between 0 and 5, so the clamp changes nothing. A shorter list of landmarks raises
  \<open>IndexError\<close>. Whatever the landmarks, a returned count is between 0 and 5.
\<close>

theorem count_sum_of_five:
  "count self lm h =
     (if length lm < 21 then Inl IndexError
      else Inr (of_bool (thumb_extended self (hand_label_of self h) (lm ! 4) (lm ! 3))
                + of_bool (py (lm ! 8) < py (lm ! 6)) + of_bool (py (lm ! 12) < py (lm ! 10))
                + of_bool (py (lm ! 16) < py (lm ! 14)) + of_bool (py (lm ! 20) < py (lm ! 18))))
   \<and> (case count self lm h of Inl e \<Rightarrow> e = IndexError | Inr n \<Rightarrow> 0 \<le> n \<and> n \<le> 5 \<and> n = max 0 (min 5 n))"
proof -
  have "case count self lm h of Inl e \<Rightarrow> e = IndexError | Inr n \<Rightarrow> 0 \<le> n \<and> n \<le> 5 \<and> n = max 0 (min 5 n)"
    by (simp add: count_eq)
  then show ?thesis
    by (simp only: count_eq [symmetric] simp_thms)
qed

section \<open>The serial channel\<close>

lemma key_neutral: "lower (strip ''neutral'') = ''neutral''"
  by code_simp

lemma key_smile: "lower (strip ''smile'') = ''smile''"
  by code_simp

lemma key_frown: "lower (strip ''frown'') = ''frown''"
  by code_simp

lemma key_SMILE: "lower (strip ''SMILE'') = ''smile''"
  by code_simp

lemma key_grin: "lower (strip ''grin'') = ''grin''"
  by code_simp

lemma line_0: "line_of 0 = ''0\<newline>''"
  by code_simp

lemma line_1: "line_of 1 = ''1\<newline>''"
  by code_simp

lemma line_2: "line_of 2 = ''2\<newline>''"
  by code_simp

lemma line_3: "line_of 3 = ''3\<newline>''"
  by code_simp

lemma line_4: "line_of 4 = ''4\<newline>''"
  by code_simp

lemma line_5: "line_of 5 = ''5\<newline>''"
  by code_simp

lemma mapping_Some: "mapping k = Some v \<Longrightarrow> v = 1 \<or> v = 2 \<or> v = 3"
  by (auto simp: mapping_def split: if_splits)

lemma mapping_None: "mapping k = None \<longleftrightarrow> k \<notin> {''neutral'', ''smile'', ''frown''}"
  by (simp add: mapping_def)

lemma send_signal_unavailable:
  assumes "\<not> available self \<or> ser self = None"
  shows "send_signal env self label = (False, self, [])"
  using assms by (auto simp: send_signal_def)

lemma send_count_unavailable:
  assumes "\<not> available self \<or> ser self = None"
  shows "send_count env self n = (False, self, [])"
  using assms by (auto simp: send_count_def)

lemma calls_send_signal_unavailable:
  assumes "\<not> available self \<or> ser self = None"
  shows "calls send_signal self cs = map (\<lambda>c. (False, [])) cs"
  using assms by (induction cs) (auto simp: send_signal_unavailable)

lemma calls_send_count_unavailable:
  assumes "\<not> available self \<or> ser self = None"
  shows "calls send_count self cs = map (\<lambda>c. (False, [])) cs"
  using assms by (induction cs) (auto simp: send_count_unavailable)

text \<open>
  C6, as the claim states it, fails: the label \<open>SMILE\<close> is not a key of the mapping, yet on an
  open channel \<^verbatim>\<open>send_signal\<close> returns true and writes \<open>3\<close> and a newline, because the label
  is stripped and lower-cased before the lookup.
\<close>

theorem send_unmapped_label_counterexample:
  "send_signal \<lparr>write_raises = False, close_raises = False\<rparr>
     \<lparr>port = Some ''/dev/ttyACM0'', baud = 9600, retries = 3, delay = 1,
        ser = Some ''/dev/ttyACM0'', available = True\<rparr>
     (Some ''SMILE'')
   = (True,
      \<lparr>port = Some ''/dev/ttyACM0'', baud = 9600, retries = 3, delay = 1,
        ser = Some ''/dev/ttyACM0'', available = True\<rparr>,
      [Write ''3\<newline>''])
   \<and> ''SMILE'' \<notin> dom mapping"
  by (simp add: send_signal_def key_SMILE mapping_def line_3 dom_def)

lemma key_Smile_padded: "lower (strip ''  Smile '') = ''smile''"
  by code_simp

text \<open>
  C6, amended. The label is stripped of surrounding whitespace and lower-cased first (labels
  are strings of code points below 256). On an open channel whose write does not raise,
  every label whose key so obtained is in the mapping is sent as the code of that key
  followed by a newline and nothing else, and the call returns true: \<open>neutral\<close> is written
  as \<open>2\<close>, \<open>smile\<close> as \<open>3\<close> and \<open>frown\<close> as \<open>1\<close>. Whenever the key is not one of the three,
  whatever the state of the channel, the call returns false, writes nothing and leaves the
  client as it is. \<^verbatim>\<open>send_signal\<close> has no raising branch: every call returns a bool.
\<close>

theorem send_signal_mapping:
  "(available self \<and> ser self = Some p \<and> \<not> write_raises env
      \<and> mapping (lower (strip (case label of None \<Rightarrow> [] | Some l \<Rightarrow> l))) = Some val \<longrightarrow>
      send_signal env self label = (True, self, [Write (line_of val)]))
   \<and> (available self \<and> ser self = Some p \<and> \<not> write_raises env \<longrightarrow>
      send_signal env self (Some ''neutral'') = (True, self, [Write ''2\<newline>''])
      \<and> send_signal env self (Some ''smile'') = (True, self, [Write ''3\<newline>''])
      \<and> send_signal env self (Some ''frown'') = (True, self, [Write ''1\<newline>'']))
   \<and> (lower (strip (case label of None \<Rightarrow> [] | Some l \<Rightarrow> l)) \<notin> {''neutral'', ''smile'', ''frown''} \<longrightarrow>
      send_signal env self label = (False, self, []))
   \<and> mapping ''neutral'' = Some 2 \<and> mapping ''smile'' = Some 3 \<and> mapping ''frown'' = Some 1
   \<and> dom mapping = {''neutral'', ''smile'', ''frown''}"
proof -
  have g: "send_signal env self label = (True, self, [Write (line_of val)])"
    if "available self \<and> ser self = Some p \<and> \<not> write_raises env
      \<and> mapping (lower (strip (case label of None \<Rightarrow> [] | Some l \<Rightarrow> l))) = Some val"
    using that by (simp add: send_signal_def Let_def)
  have a: "send_signal env self (Some ''neutral'') = (True, self, [Write ''2\<newline>''])
      \<and> send_signal env self (Some ''smile'') = (True, self, [Write ''3\<newline>''])
      \<and> send_signal env self (Some ''frown'') = (True, self, [Write ''1\<newline>''])"
    if "available self \<and> ser self = Some p \<and> \<not> write_raises env"
    using that
    by (simp add: send_signal_def key_neutral key_smile key_frown mapping_def line_1 line_2 line_3)
  have b: "send_signal env self label = (False, self, [])"
    if "lower (strip (case label of None \<Rightarrow> [] | Some l \<Rightarrow> l)) \<notin> {''neutral'', ''smile'', ''frown''}"
  proof -
    from that have "mapping (lower (strip (case label of None \<Rightarrow> [] | Some l \<Rightarrow> l))) = None"
      by (simp add: mapping_None)
    then show ?thesis by (simp add: send_signal_def)
  qed
  have m: "mapping ''neutral'' = Some 2 \<and> mapping ''smile'' = Some 3 \<and> mapping ''frown'' = Some 1"
    by (simp add: mapping_def)
  have d: "dom mapping = {''neutral'', ''smile'', ''frown''}"
    by (auto simp: mapping_def dom_def split: if_splits)
  from g a b m d show ?thesis by blast
qed

theorem send_signal_mapping_witness:
  "available \<lparr>port = Some ''/dev/ttyACM0'', baud = 9600, retries = 3, delay = 1,
        ser = Some ''/dev/ttyACM0'', available = True\<rparr>
   \<and> ser \<lparr>port = Some ''/dev/ttyACM0'', baud = 9600, retries = 3, delay = 1,
        ser = Some ''/dev/ttyACM0'', available = True\<rparr> = Some ''/dev/ttyACM0''
   \<and> \<not> write_raises \<lparr>write_raises = False, close_raises = False\<rparr>
   \<and> mapping (lower (strip (case Some ''  Smile '' of None \<Rightarrow> [] | Some l \<Rightarrow> l))) = Some 3
   \<and> send_signal \<lparr>write_raises = False, close_raises = False\<rparr> \<lparr>port = Some ''/dev/ttyACM0'', baud = 9600, retries = 3, delay = 1,
        ser = Some ''/dev/ttyACM0'', available = True\<rparr> (Some ''  Smile '') = (True, \<lparr>port = Some ''/dev/ttyACM0'', baud = 9600, retries = 3, delay = 1,
        ser = Some ''/dev/ttyACM0'', available = True\<rparr>, [Write ''3\<newline>''])
   \<and> send_signal \<lparr>write_raises = False, close_raises = False\<rparr> \<lparr>port = Some ''/dev/ttyACM0'', baud = 9600, retries = 3, delay = 1,
        ser = Some ''/dev/ttyACM0'', available = True\<rparr> (Some ''smile'') = (True, \<lparr>port = Some ''/dev/ttyACM0'', baud = 9600, retries = 3, delay = 1,
        ser = Some ''/dev/ttyACM0'', available = True\<rparr>, [Write ''3\<newline>''])
   \<and> lower (strip (case Some ''grin'' of None \<Rightarrow> [] | Some l \<Rightarrow> l)) \<notin> {''neutral'', ''smile'', ''frown''}
   \<and> send_signal \<lparr>write_raises = False, close_raises = False\<rparr> \<lparr>port = Some ''/dev/ttyACM0'', baud = 9600, retries = 3, delay = 1,
        ser = Some ''/dev/ttyACM0'', available = True\<rparr> (Some ''grin'') = (False, \<lparr>port = Some ''/dev/ttyACM0'', baud = 9600, retries = 3, delay = 1,
        ser = Some ''/dev/ttyACM0'', available = True\<rparr>, [])
   \<and> lower (strip (case None of None \<Rightarrow> [] | Some l \<Rightarrow> l)) \<notin> {''neutral'', ''smile'', ''frown''}
   \<and> send_signal \<lparr>write_raises = False, close_raises = False\<rparr> \<lparr>port = Some ''/dev/ttyACM0'', baud = 9600, retries = 3, delay = 1,
        ser = Some ''/dev/ttyACM0'', available = True\<rparr> None = (False, \<lparr>port = Some ''/dev/ttyACM0'', baud = 9600, retries = 3, delay = 1,
        ser = Some ''/dev/ttyACM0'', available = True\<rparr>, [])"
proof -
  have k: "lower (strip []) = []" by (simp add: lower_def strip_def)
  show ?thesis
    using send_signal_mapping [of "\<lparr>port = Some ''/dev/ttyACM0'', baud = 9600, retries = 3, delay = 1,
        ser = Some ''/dev/ttyACM0'', available = True\<rparr>" "''/dev/ttyACM0''" "\<lparr>write_raises = False, close_raises = False\<rparr>" "Some ''  Smile ''" 3]
      send_signal_mapping [of "\<lparr>port = Some ''/dev/ttyACM0'', baud = 9600, retries = 3, delay = 1,
        ser = Some ''/dev/ttyACM0'', available = True\<rparr>" "''/dev/ttyACM0''" "\<lparr>write_raises = False, close_raises = False\<rparr>" "Some ''grin''" 3]
      send_signal_mapping [of "\<lparr>port = Some ''/dev/ttyACM0'', baud = 9600, retries = 3, delay = 1,
        ser = Some ''/dev/ttyACM0'', available = True\<rparr>" "''/dev/ttyACM0''" "\<lparr>write_raises = False, close_raises = False\<rparr>" None 3]
    by (simp add: key_Smile_padded key_grin k mapping_def line_3)
qed

text \<open>
  C8. When the write of a send raises on an open channel, the call returns false, has called
  \<^verbatim>\<open>close\<close> on the connection (an exception of \<^verbatim>\<open>close\<close> is swallowed) and leaves the client
  with \<^verbatim>\<open>_ser = None\<close> and \<^verbatim>\<open>_available = False\<close>. From that client every later send, in any
  run of calls with any arguments and whatever the device would do, returns false with no
  event at all (no write, no open) and leaves the client unchanged. This holds for
  \<^verbatim>\<open>send_signal\<close> and for \<^verbatim>\<open>send_count\<close>.
\<close>

theorem write_failure_is_terminal:
  "(available self \<and> ser self = Some p \<and> write_raises env
      \<and> mapping (lower (strip (case label of None \<Rightarrow> [] | Some l \<Rightarrow> l))) = Some val \<longrightarrow>
      send_signal env self label
        = (False, self\<lparr>ser := None, available := False\<rparr>, [WriteError (line_of val), ser_close env])
      \<and> (ser_close env = Close \<or> ser_close env = CloseError)
      \<and> (\<forall>env' label'. send_signal env' (self\<lparr>ser := None, available := False\<rparr>) label'
            = (False, self\<lparr>ser := None, available := False\<rparr>, []))
      \<and> (\<forall>cs. calls send_signal (self\<lparr>ser := None, available := False\<rparr>) cs
            = map (\<lambda>c. (False, [])) cs))
   \<and> (available self \<and> ser self = Some p \<and> write_raises env \<longrightarrow>
      send_count env self n
        = (False, self\<lparr>ser := None, available := False\<rparr>, [WriteError (line_of n), ser_close env])
      \<and> (\<forall>env' n'. send_count env' (self\<lparr>ser := None, available := False\<rparr>) n'
            = (False, self\<lparr>ser := None, available := False\<rparr>, []))
      \<and> (\<forall>cs. calls send_count (self\<lparr>ser := None, available := False\<rparr>) cs
            = map (\<lambda>c. (False, [])) cs))"
proof -
  let ?s = "self\<lparr>ser := None, available := False\<rparr>"
  have u: "\<not> available ?s \<or> ser ?s = None" by simp
  have 1: "send_signal env self label = (False, ?s, [WriteError (line_of val), ser_close env])"
    if "available self \<and> ser self = Some p \<and> write_raises env
        \<and> mapping (lower (strip (case label of None \<Rightarrow> [] | Some l \<Rightarrow> l))) = Some val"
    using that by (simp add: send_signal_def Let_def)
  have 2: "send_count env self n = (False, ?s, [WriteError (line_of n), ser_close env])"
    if "available self \<and> ser self = Some p \<and> write_raises env"
    using that by (simp add: send_count_def Let_def)
  have 3: "ser_close env = Close \<or> ser_close env = CloseError"
    by (simp add: ser_close_def)
  have 4: "\<forall>env' label'. send_signal env' ?s label' = (False, ?s, [])"
    using send_signal_unavailable [OF u] by blast
  have 5: "\<forall>env' n'. send_count env' ?s n' = (False, ?s, [])"
    using send_count_unavailable [OF u] by blast
  have 6: "\<forall>cs. calls send_signal ?s cs = map (\<lambda>c. (False, [])) cs"
    using calls_send_signal_unavailable [OF u] by blast
  have 7: "\<forall>cs. calls send_count ?s cs = map (\<lambda>c. (False, [])) cs"
    using calls_send_count_unavailable [OF u] by blast
  from 1 2 3 4 5 6 7 show ?thesis by blast
qed

theorem write_failure_is_terminal_witness:
  "available \<lparr>port = Some ''/dev/ttyACM0'', baud = 9600, retries = 3, delay = 1,
        ser = Some ''/dev/ttyACM0'', available = True\<rparr>
   \<and> ser \<lparr>port = Some ''/dev/ttyACM0'', baud = 9600, retries = 3, delay = 1,
        ser = Some ''/dev/ttyACM0'', available = True\<rparr> = Some ''/dev/ttyACM0''
   \<and> write_raises \<lparr>write_raises = True, close_raises = False\<rparr>
   \<and> mapping (lower (strip (case Some ''smile'' of None \<Rightarrow> [] | Some l \<Rightarrow> l))) = Some 3
   \<and> send_signal \<lparr>write_raises = True, close_raises = False\<rparr>
        \<lparr>port = Some ''/dev/ttyACM0'', baud = 9600, retries = 3, delay = 1,
        ser = Some ''/dev/ttyACM0'', available = True\<rparr>
        (Some ''smile'')
      = (False,
         \<lparr>port = Some ''/dev/ttyACM0'', baud = 9600, retries = 3, delay = 1,
        ser = None, available = False\<rparr>,
         [WriteError ''3\<newline>'', Close])
   \<and> send_count \<lparr>write_raises = True, close_raises = False\<rparr>
        \<lparr>port = Some ''/dev/ttyACM0'', baud = 9600, retries = 3, delay = 1,
        ser = Some ''/dev/ttyACM0'', available = True\<rparr>
        4
      = (False,
         \<lparr>port = Some ''/dev/ttyACM0'', baud = 9600, retries = 3, delay = 1,
        ser = None, available = False\<rparr>,
         [WriteError ''4\<newline>'', Close])
   \<and> calls send_signal
        \<lparr>port = Some ''/dev/ttyACM0'', baud = 9600, retries = 3, delay = 1,
        ser = None, available = False\<rparr>
        [(\<lparr>write_raises = False, close_raises = False\<rparr>, Some ''frown''),
         (\<lparr>write_raises = False, close_raises = False\<rparr>, Some ''smile'')]
      = [(False, []), (False, [])]
   \<and> calls send_count
        \<lparr>port = Some ''/dev/ttyACM0'', baud = 9600, retries = 3, delay = 1,
        ser = None, available = False\<rparr>
        [(\<lparr>write_raises = False, close_raises = False\<rparr>, 2),
         (\<lparr>write_raises = False, close_raises = False\<rparr>, 5)]
      = [(False, []), (False, [])]"
  using write_failure_is_terminal
    [of "\<lparr>port = Some ''/dev/ttyACM0'', baud = 9600, retries = 3, delay = 1,
        ser = Some ''/dev/ttyACM0'', available = True\<rparr>"
        "''/dev/ttyACM0''" "\<lparr>write_raises = True, close_raises = False\<rparr>" "Some ''smile''" 3 4]
  by (simp add: key_smile mapping_def line_3 line_4 ser_close_def)

section \<open>The change gate\<close>

lemma gate_frames_same:
  "gate_frames (Some c) (Some v) (map (\<lambda>s. (s, v)) sends) = map (\<lambda>s. None) sends"
  by (induction sends) (simp_all add: change_gate_def)

lemma change_gate_called:
  assumes "Some v \<noteq> prev"
  shows "change_gate send (Some c) prev v =
           (Some (fst (snd (send c v))), (if fst (send c v) then Some v else prev),
            Some (fst (send c v)), snd (snd (send c v)))"
  using assms by (simp add: change_gate_def split: prod.splits)

text \<open>
  C7. With a client present, the gate calls the send method iff the new value differs from
  the one last sent (\<open>sent\<close> is \<open>None\<close> when no call is made), and what it returns is what that
  call returned; the value last sent becomes the new value only when the call returned true.
  Without a client no call is made. After a call that returned true, any number of further
  frames with the same value, whatever the device would do, make no call. After a call that
  returned false the value last sent is unchanged and the next frame with the same value
  calls the send method again.
\<close>

theorem change_gate_sends_on_change:
  "((fst (snd (snd (change_gate send (Some c) prev v))) \<noteq> None) = (Some v \<noteq> prev))
   \<and> (Some v \<noteq> prev \<longrightarrow>
        change_gate send (Some c) prev v =
          (Some (fst (snd (send c v))), (if fst (send c v) then Some v else prev),
           Some (fst (send c v)), snd (snd (send c v))))
   \<and> (Some v = prev \<longrightarrow> change_gate send (Some c) prev v = (Some c, prev, None, []))
   \<and> change_gate send None prev v = (None, prev, None, [])
   \<and> (change_gate send (Some c) prev v = (cl', prev', Some True, evs) \<longrightarrow>
        prev' = Some v
        \<and> gate_frames cl' prev' (map (\<lambda>s. (s, v)) sends) = map (\<lambda>s. None) sends)
   \<and> (change_gate send (Some c) prev v = (cl', prev', Some False, evs) \<longrightarrow>
        prev' = prev
        \<and> (\<exists>c'. cl' = Some c'
              \<and> (\<forall>send2. fst (snd (snd (change_gate send2 cl' prev' v))) = Some (fst (send2 c' v)))))"
proof -
  have 1: "(fst (snd (snd (change_gate send (Some c) prev v))) \<noteq> None) = (Some v \<noteq> prev)"
    by (simp add: change_gate_def split: prod.splits)
  have 2: "change_gate send (Some c) prev v =
          (Some (fst (snd (send c v))), (if fst (send c v) then Some v else prev),
           Some (fst (send c v)), snd (snd (send c v)))" if "Some v \<noteq> prev"
    using that by (rule change_gate_called)
  have 3: "change_gate send (Some c) prev v = (Some c, prev, None, [])" if "Some v = prev"
    using that by (simp add: change_gate_def)
  have 4: "change_gate send None prev v = (None, prev, None, [])"
    by (simp add: change_gate_def)
  have 5: "prev' = Some v \<and> gate_frames cl' prev' (map (\<lambda>s. (s, v)) sends) = map (\<lambda>s. None) sends"
    if h: "change_gate send (Some c) prev v = (cl', prev', Some True, evs)"
  proof -
    from h have d: "Some v \<noteq> prev"
      by (auto simp: change_gate_def)
    from h have "prev' = Some v" and "cl' = Some (fst (snd (send c v)))"
      unfolding change_gate_called [OF d] by (auto split: if_splits)
    then show ?thesis by (simp add: gate_frames_same)
  qed
  have 6: "prev' = prev \<and> (\<exists>c'. cl' = Some c'
              \<and> (\<forall>send2. fst (snd (snd (change_gate send2 cl' prev' v))) = Some (fst (send2 c' v))))"
    if h: "change_gate send (Some c) prev v = (cl', prev', Some False, evs)"
  proof -
    from h have d: "Some v \<noteq> prev"
      by (auto simp: change_gate_def)
    from h have p: "prev' = prev" and c: "cl' = Some (fst (snd (send c v)))"
      unfolding change_gate_called [OF d] by (auto split: if_splits)
    show ?thesis
      using d by (simp add: p c change_gate_called)
  qed
  from 1 2 3 4 5 6 show ?thesis by blast
qed

theorem change_gate_sends_on_change_witness:
  "Some (3::int) \<noteq> None
   \<and> change_gate (send_count \<lparr>write_raises = False, close_raises = False\<rparr>) (Some \<lparr>port = Some ''/dev/ttyACM0'', baud = 9600, retries = 3, delay = 1,
        ser = Some ''/dev/ttyACM0'', available = True\<rparr>) None 3
      = (Some \<lparr>port = Some ''/dev/ttyACM0'', baud = 9600, retries = 3, delay = 1,
        ser = Some ''/dev/ttyACM0'', available = True\<rparr>, Some 3, Some True, [Write ''3\<newline>''])
   \<and> gate_frames (Some \<lparr>port = Some ''/dev/ttyACM0'', baud = 9600, retries = 3, delay = 1,
        ser = Some ''/dev/ttyACM0'', available = True\<rparr>) (Some 3)
        (map (\<lambda>s. (s, 3)) [(send_count \<lparr>write_raises = False, close_raises = False\<rparr>), (send_count \<lparr>write_raises = True, close_raises = False\<rparr>)])
      = [None, None]
   \<and> change_gate (send_count \<lparr>write_raises = True, close_raises = False\<rparr>) (Some \<lparr>port = Some ''/dev/ttyACM0'', baud = 9600, retries = 3, delay = 1,
        ser = Some ''/dev/ttyACM0'', available = True\<rparr>) None 3
      = (Some \<lparr>port = Some ''/dev/ttyACM0'', baud = 9600, retries = 3, delay = 1,
        ser = None, available = False\<rparr>, None, Some False, [WriteError ''3\<newline>'', Close])
   \<and> fst (snd (snd (change_gate (send_count \<lparr>write_raises = False, close_raises = False\<rparr>) (Some \<lparr>port = Some ''/dev/ttyACM0'', baud = 9600, retries = 3, delay = 1,
        ser = None, available = False\<rparr>) None 3))) = Some False
   \<and> Some (3::int) = Some 3
   \<and> change_gate (send_count \<lparr>write_raises = False, close_raises = False\<rparr>) (Some \<lparr>port = Some ''/dev/ttyACM0'', baud = 9600, retries = 3, delay = 1,
        ser = Some ''/dev/ttyACM0'', available = True\<rparr>) (Some 3) 3 = (Some \<lparr>port = Some ''/dev/ttyACM0'', baud = 9600, retries = 3, delay = 1,
        ser = Some ''/dev/ttyACM0'', available = True\<rparr>, Some 3, None, [])"
proof -
  have ok: "(send_count \<lparr>write_raises = False, close_raises = False\<rparr>) \<lparr>port = Some ''/dev/ttyACM0'', baud = 9600, retries = 3, delay = 1,
        ser = Some ''/dev/ttyACM0'', available = True\<rparr> 3 = (True, \<lparr>port = Some ''/dev/ttyACM0'', baud = 9600, retries = 3, delay = 1,
        ser = Some ''/dev/ttyACM0'', available = True\<rparr>, [Write ''3\<newline>''])"
    by (simp add: send_count_def line_3)
  have bad: "(send_count \<lparr>write_raises = True, close_raises = False\<rparr>) \<lparr>port = Some ''/dev/ttyACM0'', baud = 9600, retries = 3, delay = 1,
        ser = Some ''/dev/ttyACM0'', available = True\<rparr> 3 = (False, \<lparr>port = Some ''/dev/ttyACM0'', baud = 9600, retries = 3, delay = 1,
        ser = None, available = False\<rparr>, [WriteError ''3\<newline>'', Close])"
    by (simp add: send_count_def line_3 ser_close_def)
  have un: "(send_count \<lparr>write_raises = False, close_raises = False\<rparr>) \<lparr>port = Some ''/dev/ttyACM0'', baud = 9600, retries = 3, delay = 1,
        ser = None, available = False\<rparr> 3 = (False, \<lparr>port = Some ''/dev/ttyACM0'', baud = 9600, retries = 3, delay = 1,
        ser = None, available = False\<rparr>, [])"
    by (simp add: send_count_def)
  have g1: "change_gate (send_count \<lparr>write_raises = False, close_raises = False\<rparr>) (Some \<lparr>port = Some ''/dev/ttyACM0'', baud = 9600, retries = 3, delay = 1,
        ser = Some ''/dev/ttyACM0'', available = True\<rparr>) None 3
      = (Some \<lparr>port = Some ''/dev/ttyACM0'', baud = 9600, retries = 3, delay = 1,
        ser = Some ''/dev/ttyACM0'', available = True\<rparr>, Some 3, Some True, [Write ''3\<newline>''])"
    by (simp add: change_gate_def ok)
  have g2: "change_gate (send_count \<lparr>write_raises = True, close_raises = False\<rparr>) (Some \<lparr>port = Some ''/dev/ttyACM0'', baud = 9600, retries = 3, delay = 1,
        ser = Some ''/dev/ttyACM0'', available = True\<rparr>) None 3
      = (Some \<lparr>port = Some ''/dev/ttyACM0'', baud = 9600, retries = 3, delay = 1,
        ser = None, available = False\<rparr>, None, Some False, [WriteError ''3\<newline>'', Close])"
    by (simp add: change_gate_def bad)
  note t1 = change_gate_sends_on_change
    [of "(send_count \<lparr>write_raises = False, close_raises = False\<rparr>)" "\<lparr>port = Some ''/dev/ttyACM0'', baud = 9600, retries = 3, delay = 1,
        ser = Some ''/dev/ttyACM0'', available = True\<rparr>" None 3 "Some \<lparr>port = Some ''/dev/ttyACM0'', baud = 9600, retries = 3, delay = 1,
        ser = Some ''/dev/ttyACM0'', available = True\<rparr>" "Some 3" "[Write ''3\<newline>'']"
        "[(send_count \<lparr>write_raises = False, close_raises = False\<rparr>), (send_count \<lparr>write_raises = True, close_raises = False\<rparr>)]"]
  note t2 = change_gate_sends_on_change
    [of "(send_count \<lparr>write_raises = True, close_raises = False\<rparr>)" "\<lparr>port = Some ''/dev/ttyACM0'', baud = 9600, retries = 3, delay = 1,
        ser = Some ''/dev/ttyACM0'', available = True\<rparr>" None 3 "Some \<lparr>port = Some ''/dev/ttyACM0'', baud = 9600, retries = 3, delay = 1,
        ser = None, available = False\<rparr>" None "[WriteError ''3\<newline>'', Close]"]
  from t1 g1 have a: "gate_frames (Some \<lparr>port = Some ''/dev/ttyACM0'', baud = 9600, retries = 3, delay = 1,
        ser = Some ''/dev/ttyACM0'', available = True\<rparr>) (Some 3)
        (map (\<lambda>s. (s, 3)) [(send_count \<lparr>write_raises = False, close_raises = False\<rparr>), (send_count \<lparr>write_raises = True, close_raises = False\<rparr>)]) = [None, None]"
    by simp
  from t2 g2 have b: "fst (snd (snd (change_gate (send_count \<lparr>write_raises = False, close_raises = False\<rparr>) (Some \<lparr>port = Some ''/dev/ttyACM0'', baud = 9600, retries = 3, delay = 1,
        ser = None, available = False\<rparr>) None 3))) = Some (fst ((send_count \<lparr>write_raises = False, close_raises = False\<rparr>) \<lparr>port = Some ''/dev/ttyACM0'', baud = 9600, retries = 3, delay = 1,
        ser = None, available = False\<rparr> 3))"
    by blast
  from t1 have c: "change_gate (send_count \<lparr>write_raises = False, close_raises = False\<rparr>) (Some \<lparr>port = Some ''/dev/ttyACM0'', baud = 9600, retries = 3, delay = 1,
        ser = Some ''/dev/ttyACM0'', available = True\<rparr>) (Some 3) 3 = (Some \<lparr>port = Some ''/dev/ttyACM0'', baud = 9600, retries = 3, delay = 1,
        ser = Some ''/dev/ttyACM0'', available = True\<rparr>, Some 3, None, [])"
    by (simp add: change_gate_def)
  from g1 g2 a b c un show ?thesis by simp
qed

section \<open>Frames without a subject\<close>

lemma items_deque_append_nonempty:
  assumes "1 \<le> maxlen d"
  shows "items (deque_append d v) \<noteq> []"
  using assms by (cases "items d") (auto simp: deque_append_def Let_def)

lemma loop_body_no_face:
  assumes "multi_face_landmarks fr = None \<or> multi_face_landmarks fr = Some []"
  shows "loop_body st fr = Inr st"
  using assms by (auto simp: loop_body_def)

lemma detected_count_no_hand:
  assumes "multi_hand_landmarks fr = None \<or> multi_hand_landmarks fr = Some []"
  shows "detected_count fr = Inr 0"
  using assms by (auto simp: detected_count_def)

lemma loop_body_h_no_hand:
  assumes "multi_hand_landmarks fr = None \<or> multi_hand_landmarks fr = Some []"
    and "1 \<le> maxlen (buffer st)"
  shows "\<exists>st'. loop_body_h st fr = Inr st' \<and> buffer st' = deque_append (buffer st) 0"
proof -
  have ne: "items (deque_append (buffer st) 0) \<noteq> []"
    using assms(2) by (rule items_deque_append_nonempty)
  show ?thesis
    using ne by (simp add: loop_body_h_def detected_count_no_hand [OF assms(1)] push_count_def
        true_div_def Let_def split: prod.splits)
qed

lemma py_round_0: "py_round 0 = 0"
  by (simp add: py_round_def)

lemma loop_body_h_example:
  "loop_body_h \<lparr>serial_client_h = None, buffer = \<lparr>maxlen = 5, items = []\<rparr>,
        prev_sent = None, trace_h = []\<rparr> \<lparr>multi_hand_landmarks = None, multi_handedness = None,
        io_h = \<lparr>write_raises = False, close_raises = False\<rparr>, quit_h = False\<rparr> = Inr \<lparr>serial_client_h = None, buffer = \<lparr>maxlen = 5, items = [0]\<rparr>,
        prev_sent = None, trace_h = []\<rparr>"
  by (simp add: loop_body_h_def detected_count_def push_count_def deque_append_def true_div_def
      py_round_0 change_gate_def Let_def)

text \<open>
  C3, as the claim states it, fails for the finger-counting loop: entered with a window of 5
  and an empty buffer, a frame without a hand leaves the buffer holding the value 0.
\<close>

theorem no_hand_frame_counterexample:
  "hand_loop_init None 5 = Inr \<lparr>serial_client_h = None, buffer = \<lparr>maxlen = 5, items = []\<rparr>,
        prev_sent = None, trace_h = []\<rparr>
   \<and> multi_hand_landmarks \<lparr>multi_hand_landmarks = None, multi_handedness = None,
        io_h = \<lparr>write_raises = False, close_raises = False\<rparr>, quit_h = False\<rparr> = None
   \<and> loop_body_h \<lparr>serial_client_h = None, buffer = \<lparr>maxlen = 5, items = []\<rparr>,
        prev_sent = None, trace_h = []\<rparr> \<lparr>multi_hand_landmarks = None, multi_handedness = None,
        io_h = \<lparr>write_raises = False, close_raises = False\<rparr>, quit_h = False\<rparr> = Inr \<lparr>serial_client_h = None, buffer = \<lparr>maxlen = 5, items = [0]\<rparr>,
        prev_sent = None, trace_h = []\<rparr>
   \<and> buffer \<lparr>serial_client_h = None, buffer = \<lparr>maxlen = 5, items = [0]\<rparr>,
        prev_sent = None, trace_h = []\<rparr> \<noteq> buffer \<lparr>serial_client_h = None, buffer = \<lparr>maxlen = 5, items = []\<rparr>,
        prev_sent = None, trace_h = []\<rparr>"
  by (simp add: loop_body_h_example hand_loop_init_def deque_init_def)

text \<open>
  C3, amended. In the expression loop a frame in which no face is detected
  (\<^verbatim>\<open>multi_face_landmarks\<close> is \<^verbatim>\<open>None\<close> or empty) leaves the whole loop state, and so both
  smoothing buffers, unchanged. In the finger-counting loop a frame in which no hand is
  detected appends the count 0 to the buffer.
\<close>

theorem no_subject_frame:
  "(multi_face_landmarks fr = None \<or> multi_face_landmarks fr = Some [] \<longrightarrow>
      loop_body st fr = Inr st)
   \<and> ((multi_hand_landmarks hf = None \<or> multi_hand_landmarks hf = Some [])
       \<and> 1 \<le> maxlen (buffer hs) \<longrightarrow>
      (\<exists>hs'. loop_body_h hs hf = Inr hs' \<and> buffer hs' = deque_append (buffer hs) 0))"
  using loop_body_no_face [of fr st] loop_body_h_no_hand [of hf hs]
  by blast

theorem no_subject_frame_witness:
  "(multi_face_landmarks \<lparr>multi_face_landmarks = None, shape = (480, 640),
        io = \<lparr>write_raises = False, close_raises = False\<rparr>, quit = False\<rparr> = None
    \<or> multi_face_landmarks \<lparr>multi_face_landmarks = None, shape = (480, 640),
        io = \<lparr>write_raises = False, close_raises = False\<rparr>, quit = False\<rparr> = Some [])
   \<and> loop_body \<lparr>serial_client = None,
        detector = \<lparr>mouth_buf = \<lparr>maxlen = 6, items = [1 / 4]\<rparr>,
                     corner_buf = \<lparr>maxlen = 6, items = [0]\<rparr>,
                     smile_thresh = 32 / 100, frown_thresh = 22 / 100, corner_margin = 15 / 1000\<rparr>,
        prev_label = None, trace = []\<rparr> \<lparr>multi_face_landmarks = None, shape = (480, 640),
        io = \<lparr>write_raises = False, close_raises = False\<rparr>, quit = False\<rparr> = Inr \<lparr>serial_client = None,
        detector = \<lparr>mouth_buf = \<lparr>maxlen = 6, items = [1 / 4]\<rparr>,
                     corner_buf = \<lparr>maxlen = 6, items = [0]\<rparr>,
                     smile_thresh = 32 / 100, frown_thresh = 22 / 100, corner_margin = 15 / 1000\<rparr>,
        prev_label = None, trace = []\<rparr>
   \<and> (multi_hand_landmarks \<lparr>multi_hand_landmarks = None, multi_handedness = None,
        io_h = \<lparr>write_raises = False, close_raises = False\<rparr>, quit_h = False\<rparr> = None
      \<or> multi_hand_landmarks \<lparr>multi_hand_landmarks = None, multi_handedness = None,
        io_h = \<lparr>write_raises = False, close_raises = False\<rparr>, quit_h = False\<rparr> = Some [])
   \<and> 1 \<le> maxlen (buffer \<lparr>serial_client_h = None, buffer = \<lparr>maxlen = 5, items = []\<rparr>,
        prev_sent = None, trace_h = []\<rparr>)
   \<and> (\<exists>hs'. loop_body_h \<lparr>serial_client_h = None, buffer = \<lparr>maxlen = 5, items = []\<rparr>,
        prev_sent = None, trace_h = []\<rparr> \<lparr>multi_hand_landmarks = None, multi_handedness = None,
        io_h = \<lparr>write_raises = False, close_raises = False\<rparr>, quit_h = False\<rparr> = Inr hs'
          \<and> buffer hs' = \<lparr>maxlen = 5, items = [0]\<rparr>)"
  using no_subject_frame
    [of "\<lparr>multi_face_landmarks = None, shape = (480, 640),
        io = \<lparr>write_raises = False, close_raises = False\<rparr>, quit = False\<rparr>" "\<lparr>serial_client = None,
        detector = \<lparr>mouth_buf = \<lparr>maxlen = 6, items = [1 / 4]\<rparr>,
                     corner_buf = \<lparr>maxlen = 6, items = [0]\<rparr>,
                     smile_thresh = 32 / 100, frown_thresh = 22 / 100, corner_margin = 15 / 1000\<rparr>,
        prev_label = None, trace = []\<rparr>" "\<lparr>multi_hand_landmarks = None, multi_handedness = None,
        io_h = \<lparr>write_raises = False, close_raises = False\<rparr>, quit_h = False\<rparr>" "\<lparr>serial_client_h = None, buffer = \<lparr>maxlen = 5, items = []\<rparr>,
        prev_sent = None, trace_h = []\<rparr>"]
  by (simp add: deque_append_def)

section \<open>The values on the wire\<close>

lemma set_items_deque_append:
  "set (items (deque_append d v)) \<subseteq> insert v (set (items d))"
proof (cases "items d")
  case Nil
  then show ?thesis by (simp add: deque_append_def Let_def)
next
  case (Cons a as)
  then show ?thesis by (auto simp: deque_append_def Let_def)
qed

lemma sum_list_bounds:
  fixes xs :: "int list"
  assumes "\<forall>x\<in>set xs. 0 \<le> x \<and> x \<le> 5"
  shows "0 \<le> sum_list xs \<and> sum_list xs \<le> 5 * int (length xs)"
  using assms by (induction xs) auto

lemma mean_bounds:
  fixes xs :: "int list"
  assumes "xs \<noteq> []" and "\<forall>x\<in>set xs. 0 \<le> x \<and> x \<le> 5"
  shows "0 \<le> real_of_int (sum_list xs) / real (length xs)
         \<and> real_of_int (sum_list xs) / real (length xs) \<le> 5"
proof -
  from assms(1) have pos: "0 < real (length xs)" by simp
  from sum_list_bounds [OF assms(2)]
  have a: "0 \<le> real_of_int (sum_list xs)" and b: "real_of_int (sum_list xs) \<le> 5 * real (length xs)"
    by (simp, metis of_int_le_iff of_int_mult of_int_numeral of_int_of_nat_eq)
  from a pos have "0 \<le> real_of_int (sum_list xs) / real (length xs)" by simp
  moreover from b pos have "real_of_int (sum_list xs) / real (length xs) \<le> 5"
    by (simp add: pos_divide_le_eq)
  ultimately show ?thesis by simp
qed

lemma py_round_range:
  assumes "0 \<le> r" and "r \<le> 5"
  shows "0 \<le> py_round r \<and> py_round r \<le> 5"
proof -
  have f0: "0 \<le> \<lfloor>r\<rfloor>" using assms(1) by simp
  have f5: "\<lfloor>r\<rfloor> \<le> 5" using floor_mono [OF assms(2)] by simp
  show ?thesis
  proof (cases "\<lfloor>r\<rfloor> = 5")
    case True
    then have "5 \<le> r" by (metis of_int_floor_le of_int_numeral)
    with assms(2) have "r = 5" by simp
    then show ?thesis by (simp add: py_round_def)
  next
    case False
    with f5 have "\<lfloor>r\<rfloor> \<le> 4" by linarith
    with f0 show ?thesis by (auto simp: py_round_def Let_def)
  qed
qed

lemma line_of_range:
  assumes "0 \<le> n" and "n \<le> 5"
  shows "line_of n \<in> {''0\<newline>'', ''1\<newline>'', ''2\<newline>'', ''3\<newline>'', ''4\<newline>'', ''5\<newline>''}"
proof -
  from assms have "n = 0 \<or> n = 1 \<or> n = 2 \<or> n = 3 \<or> n = 4 \<or> n = 5" by arith
  then show ?thesis
    using line_0 line_1 line_2 line_3 line_4 line_5 by auto
qed

lemma send_count_Write:
  assumes "Write m \<in> set (snd (snd (send_count env c n)))"
  shows "m = line_of n"
  using assms by (auto simp: send_count_def Let_def ser_close_def split: if_splits)

lemma send_signal_Write:
  assumes "Write m \<in> set (snd (snd (send_signal env c l)))"
  shows "m \<in> {''1\<newline>'', ''2\<newline>'', ''3\<newline>''}"
proof -
  from assms obtain val where "m = line_of val" and "val = 1 \<or> val = 2 \<or> val = 3"
    by (auto simp: send_signal_def Let_def ser_close_def split: if_splits option.splits
        dest: mapping_Some)
  then show ?thesis
    using line_1 line_2 line_3 by auto
qed

lemma close_no_Write: "Write m \<notin> set (snd (close env c))"
  by (simp add: close_def ser_close_def)

lemma change_gate_events:
  assumes "change_gate send cl prev v = (cl', prev', sent, evs)" and "e \<in> set evs"
  shows "\<exists>c. cl = Some c \<and> e \<in> set (snd (snd (send c v)))"
  using assms by (auto simp: change_gate_def split: option.splits if_splits prod.splits)

lemma detected_count_range:
  assumes "detected_count fr = Inr n"
  shows "0 \<le> n \<and> n \<le> 5"
  using assms
  by (auto simp: detected_count_def split: option.splits list.splits dest: count_range)

lemma push_count_range:
  assumes "\<forall>x\<in>set (items buf). 0 \<le> x \<and> x \<le> 5" and "0 \<le> n" and "n \<le> 5"
    and "push_count buf n = (buf', Inr q)"
  shows "0 \<le> py_round q \<and> py_round q \<le> 5 \<and> (\<forall>x\<in>set (items buf'). 0 \<le> x \<and> x \<le> 5)"
proof -
  from assms(4) have b: "buf' = deque_append buf n"
    and ne: "items buf' \<noteq> []"
    and q: "q = real_of_int (sum_list (items buf')) / real (length (items buf'))"
    by (auto simp: push_count_def true_div_def Let_def split: if_splits)
  have r: "\<forall>x\<in>set (items buf'). 0 \<le> x \<and> x \<le> 5"
    using set_items_deque_append [of buf n] assms(1-3) unfolding b by auto
  from mean_bounds [OF ne r] have "0 \<le> q \<and> q \<le> 5" unfolding q .
  then have "0 \<le> py_round q \<and> py_round q \<le> 5" by (simp add: py_round_range)
  with r show ?thesis by simp
qed

lemma loop_body_h_inv:
  assumes "loop_body_h st fr = Inr st'"
    and "\<forall>x\<in>set (items (buffer st)). 0 \<le> x \<and> x \<le> 5"
    and "\<forall>m. Write m \<in> set (trace_h st) \<longrightarrow> m \<in> {''0\<newline>'', ''1\<newline>'', ''2\<newline>'', ''3\<newline>'', ''4\<newline>'', ''5\<newline>''}"
  shows "(\<forall>x\<in>set (items (buffer st')). 0 \<le> x \<and> x \<le> 5)
         \<and> (\<forall>m. Write m \<in> set (trace_h st') \<longrightarrow> m \<in> {''0\<newline>'', ''1\<newline>'', ''2\<newline>'', ''3\<newline>'', ''4\<newline>'', ''5\<newline>''})"
proof -
  from assms(1) obtain n buf q cl prev sent evs where
    d: "detected_count fr = Inr n" and
    p: "push_count (buffer st) n = (buf, Inr q)" and
    g: "change_gate (send_count (io_h fr)) (serial_client_h st) (prev_sent st) (py_round q)
          = (cl, prev, sent, evs)" and
    s: "st' = \<lparr>serial_client_h = cl, buffer = buf, prev_sent = prev, trace_h = trace_h st @ evs\<rparr>"
    by (auto simp: loop_body_h_def split: sum.splits prod.splits)
  from detected_count_range [OF d] have n: "0 \<le> n" "n \<le> 5" by simp_all
  from push_count_range [OF assms(2) n p]
  have r: "0 \<le> py_round q" "py_round q \<le> 5" and b: "\<forall>x\<in>set (items buf). 0 \<le> x \<and> x \<le> 5"
    by simp_all
  have "m \<in> {''0\<newline>'', ''1\<newline>'', ''2\<newline>'', ''3\<newline>'', ''4\<newline>'', ''5\<newline>''}" if "Write m \<in> set evs" for m
  proof -
    from change_gate_events [OF g that] obtain c where
      "Write m \<in> set (snd (snd (send_count (io_h fr) c (py_round q))))" by blast
    then have "m = line_of (py_round q)" by (rule send_count_Write)
    with line_of_range [OF r] show ?thesis by simp
  qed
  with assms(3) b show ?thesis unfolding s by auto
qed

lemma frames_h_inv:
  assumes "frames_h st frs = (err, st')"
    and "\<forall>x\<in>set (items (buffer st)). 0 \<le> x \<and> x \<le> 5"
    and "\<forall>m. Write m \<in> set (trace_h st) \<longrightarrow> m \<in> {''0\<newline>'', ''1\<newline>'', ''2\<newline>'', ''3\<newline>'', ''4\<newline>'', ''5\<newline>''}"
  shows "\<forall>m. Write m \<in> set (trace_h st') \<longrightarrow> m \<in> {''0\<newline>'', ''1\<newline>'', ''2\<newline>'', ''3\<newline>'', ''4\<newline>'', ''5\<newline>''}"
  using assms
proof (induction frs arbitrary: st)
  case Nil
  then show ?case by simp
next
  case (Cons fr frs)
  show ?case
  proof (cases "loop_body_h st fr")
    case (Inl e)
    with Cons.prems show ?thesis by simp
  next
    case (Inr st1)
    from loop_body_h_inv [OF Inr Cons.prems(2) Cons.prems(3)]
    have i: "\<forall>x\<in>set (items (buffer st1)). 0 \<le> x \<and> x \<le> 5"
      and t: "\<forall>m. Write m \<in> set (trace_h st1) \<longrightarrow> m \<in> {''0\<newline>'', ''1\<newline>'', ''2\<newline>'', ''3\<newline>'', ''4\<newline>'', ''5\<newline>''}"
      by simp_all
    show ?thesis
    proof (cases "quit_h fr")
      case True
      with Inr Cons.prems(1) have "st' = st1" by simp
      with t show ?thesis by simp
    next
      case False
      with Inr Cons.prems(1) have "frames_h st1 frs = (err, st')" by simp
      from Cons.IH [OF this i t] show ?thesis .
    qed
  qed
qed

lemma run_camera_loop_Write:
  assumes "Write m \<in> set (snd (run_camera_loop client cap smooth fenv frs))"
  shows "m \<in> {''0\<newline>'', ''1\<newline>'', ''2\<newline>'', ''3\<newline>'', ''4\<newline>'', ''5\<newline>''}"
proof (cases cap)
  case False
  with assms show ?thesis by (simp add: run_camera_loop_def)
next
  case True
  show ?thesis
  proof (cases "hand_loop_init client smooth")
    case (Inl e)
    with assms True show ?thesis by (simp add: run_camera_loop_def)
  next
    case (Inr st0)
    then have b: "items (buffer st0) = []" and t: "trace_h st0 = []"
      by (auto simp: hand_loop_init_def deque_init_def split: if_splits)
    obtain err st where f: "frames_h st0 frs = (err, st)" by (cases "frames_h st0 frs")
    from frames_h_inv [OF f] b t
    have w: "\<forall>m. Write m \<in> set (trace_h st) \<longrightarrow> m \<in> {''0\<newline>'', ''1\<newline>'', ''2\<newline>'', ''3\<newline>'', ''4\<newline>'', ''5\<newline>''}" by simp
    from assms True have "Write m \<in> set (trace_h st)"
      by (auto simp: run_camera_loop_def Inr f close_no_Write split: option.splits)
    with w show ?thesis by simp
  qed
qed

lemma loop_body_inv:
  assumes "loop_body st fr = Inr st'"
    and "\<forall>m. Write m \<in> set (trace st) \<longrightarrow> m \<in> {''1\<newline>'', ''2\<newline>'', ''3\<newline>''}"
  shows "\<forall>m. Write m \<in> set (trace st') \<longrightarrow> m \<in> {''1\<newline>'', ''2\<newline>'', ''3\<newline>''}"
proof (cases "\<exists>f fs. multi_face_landmarks fr = Some (f # fs)")
  case False
  then have "loop_body st fr = Inr st"
    by (auto simp: loop_body_def split: option.splits list.splits)
  with assms show ?thesis by simp
next
  case True
  then obtain f fs where m: "multi_face_landmarks fr = Some (f # fs)" by blast
  from assms(1) obtain det label cl prev sent evs where
    g: "change_gate (\<lambda>c l. send_signal (io fr) c (Some l)) (serial_client st) (prev_label st) label
          = (cl, prev, sent, evs)" and
    s: "st' = \<lparr>serial_client = cl, detector = det, prev_label = prev, trace = trace st @ evs\<rparr>"
    by (auto simp: loop_body_def m split: sum.splits prod.splits)
  have "x \<in> {''1\<newline>'', ''2\<newline>'', ''3\<newline>''}" if "Write x \<in> set evs" for x
  proof -
    from change_gate_events [OF g that] obtain c where
      "Write x \<in> set (snd (snd (send_signal (io fr) c (Some label))))" by blast
    then show ?thesis by (rule send_signal_Write)
  qed
  with assms(2) show ?thesis unfolding s by auto
qed

lemma frames_inv:
  assumes "frames st frs = (err, st')"
    and "\<forall>m. Write m \<in> set (trace st) \<longrightarrow> m \<in> {''1\<newline>'', ''2\<newline>'', ''3\<newline>''}"
  shows "\<forall>m. Write m \<in> set (trace st') \<longrightarrow> m \<in> {''1\<newline>'', ''2\<newline>'', ''3\<newline>''}"
  using assms
proof (induction frs arbitrary: st)
  case Nil
  then show ?case by simp
next
  case (Cons fr frs)
  show ?case
  proof (cases "loop_body st fr")
    case (Inl e)
    with Cons.prems show ?thesis by simp
  next
    case (Inr st1)
    from loop_body_inv [OF Inr Cons.prems(2)]
    have t: "\<forall>m. Write m \<in> set (trace st1) \<longrightarrow> m \<in> {''1\<newline>'', ''2\<newline>'', ''3\<newline>''}" .
    show ?thesis
    proof (cases "quit fr")
      case True
      with Inr Cons.prems(1) have "st' = st1" by simp
      with t show ?thesis by simp
    next
      case False
      with Inr Cons.prems(1) have "frames st1 frs = (err, st')" by simp
      from Cons.IH [OF this t] show ?thesis .
    qed
  qed
qed

lemma run_Write:
  assumes "Write m \<in> set (snd (run client cap smooth fenv frs))"
  shows "m \<in> {''1\<newline>'', ''2\<newline>'', ''3\<newline>''}"
proof (cases cap)
  case False
  with assms show ?thesis by (simp add: run_def)
next
  case True
  show ?thesis
  proof (cases "SmileDetector_default smooth")
    case (Inl e)
    with assms True show ?thesis by (simp add: run_def)
  next
    case (Inr det)
    let ?st0 = "\<lparr>serial_client = client, detector = det, prev_label = None, trace = []\<rparr>"
    obtain err st where f: "frames ?st0 frs = (err, st)" by (cases "frames ?st0 frs")
    from frames_inv [OF f] have t: "\<forall>m. Write m \<in> set (trace st) \<longrightarrow> m \<in> {''1\<newline>'', ''2\<newline>'', ''3\<newline>''}" by simp
    from assms True have "Write m \<in> set (trace st)"
      by (auto simp: run_def Inr f close_no_Write split: option.splits)
    with t show ?thesis by simp
  qed
qed

lemma run_example:
  "run (Some \<lparr>port = Some ''/dev/ttyACM0'', baud = 9600, retries = 3, delay = 1,
        ser = Some ''/dev/ttyACM0'', available = True\<rparr>) True 6 \<lparr>write_raises = False, close_raises = False\<rparr>
     [\<lparr>multi_face_landmarks = Some [example_face], shape = (1, 1),
        io = \<lparr>write_raises = False, close_raises = False\<rparr>, quit = False\<rparr>]
   = (None, [Write ''2\<newline>'', Close])"
proof -
  have k: "lower (strip ''neutral'') = ''neutral''" by code_simp
  show ?thesis
    unfolding run_def SmileDetector_default_6
    by (simp add: loop_body_def compute_example classify_def change_gate_def send_signal_def k
        mapping_def line_2 close_def ser_close_def)
qed

lemma py_round_half: "py_round (9 / 2) = 4"
  by (simp add: py_round_def)

text \<open>
  C9. Every message that a send writes to the device lies in the stated set. Whatever its
  label, \<^verbatim>\<open>send_signal\<close> writes only the lines \<open>1\<close>, \<open>2\<close> or \<open>3\<close>, and so does every run of the
  expression program. \<^verbatim>\<open>send_count\<close> writes the line of the count it is given, and in every
  run of the finger-counting program (any client, any window size, any frames, any behaviour
  of the device) only the lines \<open>0\<close> to \<open>5\<close> are written: every detected count is between 0
  and 5, so every buffered count is, so the mean of the buffer is, and so is
  \<^verbatim>\<open>int(round(mean))\<close>.
\<close>

theorem transmitted_values_in_range:
  "(Write m1 \<in> set (snd (snd (send_signal env self label))) \<longrightarrow> m1 \<in> {''1\<newline>'', ''2\<newline>'', ''3\<newline>''})
   \<and> (Write m2 \<in> set (snd (run client cap smooth fenv frs)) \<longrightarrow> m2 \<in> {''1\<newline>'', ''2\<newline>'', ''3\<newline>''})
   \<and> (Write m3 \<in> set (snd (snd (send_count env self n))) \<longrightarrow> m3 = line_of n)
   \<and> (Write m4 \<in> set (snd (run_camera_loop client cap smooth fenv hfs)) \<longrightarrow> m4 \<in> {''0\<newline>'', ''1\<newline>'', ''2\<newline>'', ''3\<newline>'', ''4\<newline>'', ''5\<newline>''})
   \<and> (set (items buf) \<subseteq> {0..5} \<and> 0 \<le> k \<and> k \<le> 5 \<and> push_count buf k = (buf', Inr q) \<longrightarrow>
        0 \<le> py_round q \<and> py_round q \<le> 5 \<and> set (items buf') \<subseteq> {0..5})
   \<and> (detected_count hf = Inr d \<longrightarrow> 0 \<le> d \<and> d \<le> 5)"
proof -
  have 5: "0 \<le> py_round q \<and> py_round q \<le> 5 \<and> set (items buf') \<subseteq> {0..5}"
    if h: "set (items buf) \<subseteq> {0..5} \<and> 0 \<le> k \<and> k \<le> 5 \<and> push_count buf k = (buf', Inr q)"
  proof -
    from h have a: "\<forall>x\<in>set (items buf). 0 \<le> x \<and> x \<le> 5" by auto
    from h have b: "0 \<le> k" "k \<le> 5" "push_count buf k = (buf', Inr q)" by simp_all
    from push_count_range [OF a b] show ?thesis by auto
  qed
  show ?thesis
    using send_signal_Write [of m1 env self label] run_Write [of m2 client cap smooth fenv frs]
      send_count_Write [of m3 env self n] run_camera_loop_Write [of m4 client cap smooth fenv hfs]
      5 detected_count_range [of hf d]
    by blast
qed

theorem transmitted_values_in_range_witness:
  "Write ''3\<newline>'' \<in> set (snd (snd (send_signal \<lparr>write_raises = False, close_raises = False\<rparr> \<lparr>port = Some ''/dev/ttyACM0'', baud = 9600, retries = 3, delay = 1,
        ser = Some ''/dev/ttyACM0'', available = True\<rparr> (Some ''smile''))))
   \<and> Write ''2\<newline>'' \<in> set (snd (run (Some \<lparr>port = Some ''/dev/ttyACM0'', baud = 9600, retries = 3, delay = 1,
        ser = Some ''/dev/ttyACM0'', available = True\<rparr>) True 6 \<lparr>write_raises = False, close_raises = False\<rparr>
        [\<lparr>multi_face_landmarks = Some [example_face], shape = (1, 1),
        io = \<lparr>write_raises = False, close_raises = False\<rparr>, quit = False\<rparr>]))
   \<and> Write ''4\<newline>'' \<in> set (snd (snd (send_count \<lparr>write_raises = False, close_raises = False\<rparr> \<lparr>port = Some ''/dev/ttyACM0'', baud = 9600, retries = 3, delay = 1,
        ser = Some ''/dev/ttyACM0'', available = True\<rparr> 4)))
   \<and> Write ''0\<newline>'' \<in> set (snd (run_camera_loop (Some \<lparr>port = Some ''/dev/ttyACM0'', baud = 9600, retries = 3, delay = 1,
        ser = Some ''/dev/ttyACM0'', available = True\<rparr>) True 6 \<lparr>write_raises = False, close_raises = False\<rparr>
        [\<lparr>multi_hand_landmarks = None, multi_handedness = None,
        io_h = \<lparr>write_raises = False, close_raises = False\<rparr>, quit_h = False\<rparr>]))
   \<and> set (items \<lparr>maxlen = 2, items = [5, 4 :: int]\<rparr>) \<subseteq> {0..5}
   \<and> push_count \<lparr>maxlen = 2, items = [5, 4]\<rparr> 5 = (\<lparr>maxlen = 2, items = [4, 5]\<rparr>, Inr (9 / 2))
   \<and> py_round (9 / 2) = 4
   \<and> detected_count \<lparr>multi_hand_landmarks = None, multi_handedness = None,
        io_h = \<lparr>write_raises = False, close_raises = False\<rparr>, quit_h = False\<rparr> = Inr 0
   \<and> ''3\<newline>'' \<in> {''1\<newline>'', ''2\<newline>'', ''3\<newline>''}
   \<and> ''2\<newline>'' \<in> {''1\<newline>'', ''2\<newline>'', ''3\<newline>''}
   \<and> ''4\<newline>'' = line_of 4
   \<and> ''0\<newline>'' \<in> {''0\<newline>'', ''1\<newline>'', ''2\<newline>'', ''3\<newline>'', ''4\<newline>'', ''5\<newline>''}
   \<and> 0 \<le> py_round (9 / 2) \<and> py_round (9 / 2) \<le> 5
   \<and> set (items \<lparr>maxlen = 2, items = [4, 5 :: int]\<rparr>) \<subseteq> {0..5}"
proof -
  have a: "send_signal \<lparr>write_raises = False, close_raises = False\<rparr> \<lparr>port = Some ''/dev/ttyACM0'', baud = 9600, retries = 3, delay = 1,
        ser = Some ''/dev/ttyACM0'', available = True\<rparr> (Some ''smile'') = (True, \<lparr>port = Some ''/dev/ttyACM0'', baud = 9600, retries = 3, delay = 1,
        ser = Some ''/dev/ttyACM0'', available = True\<rparr>, [Write ''3\<newline>''])"
    by (simp add: send_signal_def key_smile mapping_def line_3)
  have b: "send_count \<lparr>write_raises = False, close_raises = False\<rparr> \<lparr>port = Some ''/dev/ttyACM0'', baud = 9600, retries = 3, delay = 1,
        ser = Some ''/dev/ttyACM0'', available = True\<rparr> 4 = (True, \<lparr>port = Some ''/dev/ttyACM0'', baud = 9600, retries = 3, delay = 1,
        ser = Some ''/dev/ttyACM0'', available = True\<rparr>, [Write ''4\<newline>''])"
    by (simp add: send_count_def line_4)
  have c: "push_count \<lparr>maxlen = 2, items = [5, 4]\<rparr> 5 = (\<lparr>maxlen = 2, items = [4, 5]\<rparr>, Inr (9 / 2))"
    by (simp add: push_count_def deque_append_def true_div_def Let_def)
  have d: "detected_count \<lparr>multi_hand_landmarks = None, multi_handedness = None,
        io_h = \<lparr>write_raises = False, close_raises = False\<rparr>, quit_h = False\<rparr> = Inr 0"
    by (simp add: detected_count_def)
  have e: "run_camera_loop (Some \<lparr>port = Some ''/dev/ttyACM0'', baud = 9600, retries = 3, delay = 1,
        ser = Some ''/dev/ttyACM0'', available = True\<rparr>) True 6 \<lparr>write_raises = False, close_raises = False\<rparr> [\<lparr>multi_hand_landmarks = None, multi_handedness = None,
        io_h = \<lparr>write_raises = False, close_raises = False\<rparr>, quit_h = False\<rparr>] = (None, [Write ''0\<newline>'', Close])"
    by (simp add: run_camera_loop_def hand_loop_init_def deque_init_def loop_body_h_def
      detected_count_def push_count_def deque_append_def true_div_def py_round_0 change_gate_def
      send_count_def line_0 close_def ser_close_def Let_def)
  note t = transmitted_values_in_range
    [of "''3\<newline>''" "\<lparr>write_raises = False, close_raises = False\<rparr>" "\<lparr>port = Some ''/dev/ttyACM0'', baud = 9600, retries = 3, delay = 1,
        ser = Some ''/dev/ttyACM0'', available = True\<rparr>" "Some ''smile''"
        "''2\<newline>''" "Some \<lparr>port = Some ''/dev/ttyACM0'', baud = 9600, retries = 3, delay = 1,
        ser = Some ''/dev/ttyACM0'', available = True\<rparr>" True 6 "\<lparr>write_raises = False, close_raises = False\<rparr>" "[\<lparr>multi_face_landmarks = Some [example_face], shape = (1, 1),
        io = \<lparr>write_raises = False, close_raises = False\<rparr>, quit = False\<rparr>]"
        "''4\<newline>''" 4
        "''0\<newline>''" "[\<lparr>multi_hand_landmarks = None, multi_handedness = None,
        io_h = \<lparr>write_raises = False, close_raises = False\<rparr>, quit_h = False\<rparr>]"
        "\<lparr>maxlen = 2, items = [5, 4]\<rparr>" 5 "\<lparr>maxlen = 2, items = [4, 5]\<rparr>" "9 / 2"
        "\<lparr>multi_hand_landmarks = None, multi_handedness = None,
        io_h = \<lparr>write_raises = False, close_raises = False\<rparr>, quit_h = False\<rparr>" 0]
  show ?thesis
    using t by (simp add: a b c d e run_example py_round_half line_4)
qed

end

